theory Spec2Isabelle
  imports Complex_Main
begin

section \<open>Numbers, errors and the shared DAE vectors\<close>

text \<open>
  The device models of \<^verbatim>\<open>andes/models/governor.py\<close> work on cvxopt matrices of
  doubles, one entry per device instance. Here a double is an ideal \<open>real\<close>, and a device
  model (all instances of one model class) is the list of its instances: the vector
  \<^verbatim>\<open>self.R\<close> is \<open>map R self\<close>, and an elementwise operation of the source is an
  operation on each instance.

  A quotient by a zero entry is not a real number (the matrix library raises an error or
  stores an infinity or a NaN): the model stops there with \<open>ZeroDivision\<close>.
\<close>

datatype error =
    ZeroDivision
  | MissingMandatory string
  | DanglingIndex nat
  | IndexTypeError

datatype warning = RangeViolation string nat

text \<open>
  The names of the constant Jacobian blocks (\<^verbatim>\<open>andes.consts\<close>, not among the sources):
  \<open>Fx0\<close> and \<open>Fy0\<close> hold the derivatives of the differential equations in the states and
  in the algebraic variables, \<open>Gx0\<close> and \<open>Gy0\<close> those of the algebraic equations.
\<close>

datatype jname = Fx0 | Fy0 | Gx0 | Gy0

text \<open>
  The shared vectors \<^verbatim>\<open>dae.x\<close>, \<^verbatim>\<open>dae.y\<close>, \<^verbatim>\<open>dae.f\<close>, \<^verbatim>\<open>dae.g\<close> are stores from
  slot numbers to values; the constant Jacobian blocks are the list of the triples added
  so far, each with the name of its block.
\<close>

record dae =
  dae_x :: "nat \<Rightarrow> real"
  dae_y :: "nat \<Rightarrow> real"
  dae_f :: "nat \<Rightarrow> real"
  dae_g :: "nat \<Rightarrow> real"
  dae_jac :: "(jname \<times> real \<times> nat \<times> nat) list"

text \<open>
  \<^verbatim>\<open>m[idx] = val\<close> with an index vector and a value vector: the entries are stored one
  after the other, so that of two instances with the same slot the later one stays. The
  value vector is computed before the store.
\<close>

definition assign :: "(nat \<Rightarrow> real) \<Rightarrow> ('g \<Rightarrow> nat) \<Rightarrow> ('g \<Rightarrow> real) \<Rightarrow> 'g list \<Rightarrow> (nat \<Rightarrow> real)" where
  "assign m idx val self = foldl (\<lambda>m' t. m'(idx t := val t)) m self"

text \<open>A step that can fail on an instance fails for the whole vector.\<close>

fun mapE :: "('a \<Rightarrow> error + 'b) \<Rightarrow> 'a list \<Rightarrow> error + 'b list" where
  "mapE h [] = Inr []"
| "mapE h (a # as) =
     (case h a of
        Inl e \<Rightarrow> Inl e
      | Inr b \<Rightarrow> (case mapE h as of Inl e \<Rightarrow> Inl e | Inr bs \<Rightarrow> Inr (b # bs)))"

text \<open>Statements in sequence: the first failure ends the callback.\<close>

definition bindE :: "error + 'a \<Rightarrow> ('a \<Rightarrow> error + 'b) \<Rightarrow> error + 'b" where
  "bindE r k = (case r of Inl e \<Rightarrow> Inl e | Inr a \<Rightarrow> k a)"

text \<open>\<^verbatim>\<open>self.dest = div(num, den)\<close>, elementwise.\<close>

definition div_into ::
  "(real \<Rightarrow> 'g \<Rightarrow> 'g) \<Rightarrow> ('g \<Rightarrow> real) \<Rightarrow> ('g \<Rightarrow> real) \<Rightarrow> 'g list \<Rightarrow> error + 'g list" where
  "div_into dest num den self =
     mapE (\<lambda>t. if den t = 0 then Inl ZeroDivision else Inr (dest (num t / den t) t)) self"

text \<open>
  Modelled from the spec: \<^verbatim>\<open>algeb_limiter\<close> of \<^verbatim>\<open>andes/utils/math.py\<close>, which is not
  among the sources. The spec calls it the limiter policy that clamps a value into
  \<open>[lower, upper]\<close>; the arguments are in the order of the call sites
  (\<^verbatim>\<open>algeb_limiter(pin0, self.pmin, self.pmax)\<close>).
\<close>

definition algeb_limiter :: "real \<Rightarrow> real \<Rightarrow> real \<Rightarrow> real" where
  "algeb_limiter v lower upper = (if v > upper then upper else if v < lower then lower else v)"

text \<open>
  \<^verbatim>\<open>dae.y[self.pin]\<close> in \<^verbatim>\<open>TG1.fcall\<close>: \<open>pin\<close> is a service (\<^verbatim>\<open>_service\<close>), and what it holds
  is the vector of doubles that \<open>gcall\<close> stored in it, not slot numbers. cvxopt takes an
  integer, a slice, a list of integers or a matrix of integers as an index, and refuses a
  matrix of doubles with a \<^verbatim>\<open>TypeError\<close>.
\<close>

definition getitem_doubles :: "(nat \<Rightarrow> real) \<Rightarrow> real list \<Rightarrow> error + real list" where
  "getitem_doubles m key = Inl IndexTypeError"

section \<open>The referenced generator and the base class services\<close>

text \<open>
  Modelled from the spec: the attributes of the \<^verbatim>\<open>Synchronous\<close> model that the
  governors copy. \<open>syn_omega\<close> and \<open>syn_pm\<close> are slot numbers (of the speed state and of
  the mechanical power equation), \<open>syn_Sn\<close> and \<open>syn_pm0\<close> are values.
\<close>

record synchronous =
  syn_Sn :: real
  syn_pm0 :: real
  syn_omega :: nat
  syn_pm :: nat

text \<open>
  Modelled from the spec: \<^verbatim>\<open>ModelBase.copy_param\<close> (the cross-model lookup of section 6;
  a reference to an index that does not exist is a fatal setup error).
\<close>

definition copy_param ::
  "(nat \<rightharpoonup> 's) \<Rightarrow> ('s \<Rightarrow> 'v) \<Rightarrow> ('v \<Rightarrow> 'g \<Rightarrow> 'g) \<Rightarrow> ('g \<Rightarrow> nat) \<Rightarrow> 'g list \<Rightarrow> error + 'g list" where
  "copy_param model src dest fkey self =
     mapE (\<lambda>t. case model (fkey t) of
                 None \<Rightarrow> Inl (DanglingIndex (fkey t))
               | Some s \<Rightarrow> Inr (dest (src s) t)) self"

text \<open>
  Modelled from the spec: \<^verbatim>\<open>ModelBase.limit_check\<close> with \<^verbatim>\<open>limit=True\<close> (section 7, range
  violation: the value is clamped to the nearest bound and a warning is surfaced; it does
  not abort). The warning names the key and the position of the instance.
\<close>

definition limit_check ::
  "string \<Rightarrow> ('g \<Rightarrow> real) \<Rightarrow> (real \<Rightarrow> 'g \<Rightarrow> 'g) \<Rightarrow> ('g \<Rightarrow> real) \<Rightarrow> ('g \<Rightarrow> real) \<Rightarrow> 'g list
     \<Rightarrow> 'g list \<times> warning list" where
  "limit_check key val put lower upper self =
     (map (\<lambda>t. if val t > upper t then put (upper t) t
               else if val t < lower t then put (lower t) t else t) self,
      concat (map (\<lambda>(i, t). if val t > upper t \<or> val t < lower t then [RangeViolation key i] else [])
                  (enumerate 0 self)))"

text \<open>
  Modelled from the spec: \<^verbatim>\<open>dae.add_jac\<close>, the add-triple operation of the sparse
  Jacobian accumulator: one triple per instance.
\<close>

definition add_jac :: "jname \<Rightarrow> ('g \<Rightarrow> real) \<Rightarrow> ('g \<Rightarrow> nat) \<Rightarrow> ('g \<Rightarrow> nat) \<Rightarrow> 'g list \<Rightarrow> dae \<Rightarrow> dae" where
  "add_jac m val row col self dae =
     dae\<lparr>dae_jac := dae_jac dae @ map (\<lambda>t. (m, val t, row t, col t)) self\<rparr>"

section \<open>GovernorBase\<close>

text \<open>
  One instance of a governor: the parameters of \<^verbatim>\<open>_data\<close> (with \<open>u\<close>, the connection
  status of every model), the slots of the algebraic variables \<open>wref\<close> and \<open>pout\<close>, the
  services, and the values and slots copied from the generator.
\<close>

record governor =
  u :: real
  gen :: nat
  pmax :: real
  pmin :: real
  R :: real
  wref0 :: real
  wref :: nat
  pout :: nat
  Sn :: real
  pm0 :: real
  gain :: real
  pin :: real
  omega :: nat
  pm :: nat

definition GovernorBase_init1 ::
  "(nat \<rightharpoonup> synchronous) \<Rightarrow> 'a governor_scheme list \<Rightarrow> dae
     \<Rightarrow> error + ('a governor_scheme list \<times> dae \<times> warning list)" where
  "GovernorBase_init1 Synchronous self dae =
     bindE (div_into (\<lambda>v t. t\<lparr>gain := v\<rparr>) (\<lambda>t. 1.0) R self) (\<lambda>self1.
     bindE (copy_param Synchronous syn_Sn (\<lambda>v t. t\<lparr>Sn := v\<rparr>) gen self1) (\<lambda>self2.
     bindE (copy_param Synchronous syn_pm0 (\<lambda>v t. t\<lparr>pm0 := v\<rparr>) gen self2) (\<lambda>self3.
     bindE (copy_param Synchronous syn_omega (\<lambda>v t. t\<lparr>omega := v\<rparr>) gen self3) (\<lambda>self4.
     bindE (copy_param Synchronous syn_pm (\<lambda>v t. t\<lparr>pm := v\<rparr>) gen self4) (\<lambda>self5.
       let (self6, ws) = limit_check ''pm0'' pm0 (\<lambda>v t. t\<lparr>pm0 := v\<rparr>) pmin pmax self5;
           dae1 = dae\<lparr>dae_y := assign (dae_y dae) wref wref0 self6\<rparr>;
           dae2 = dae1\<lparr>dae_y := assign (dae_y dae1) pout pm0 self6\<rparr>
       in Inr (self6, dae2, ws))))))"

definition GovernorBase_gcall :: "'a governor_scheme list \<Rightarrow> dae \<Rightarrow> 'a governor_scheme list \<times> dae" where
  "GovernorBase_gcall self dae =
     (let self1 = map (\<lambda>t. let pin0 = pm0 t + gain t * (wref0 t - dae_x dae (omega t))
                            in t\<lparr>pin := algeb_limiter pin0 (pmin t) (pmax t)\<rparr>) self;
          dae1 = dae\<lparr>dae_g := assign (dae_g dae) pm
                                  (\<lambda>t. dae_g dae (pm t) + (pm0 t - u t * dae_y dae (pout t))) self1\<rparr>;
          dae2 = dae1\<lparr>dae_g := assign (dae_g dae1) wref (\<lambda>t. dae_y dae1 (wref t) - wref0 t) self1\<rparr>
      in (self1, dae2))"

definition GovernorBase_jac0 :: "'a governor_scheme list \<Rightarrow> dae \<Rightarrow> dae" where
  "GovernorBase_jac0 self dae =
     (let dae1 = add_jac Gy0 (\<lambda>t. - u t) pm pout self dae
      in add_jac Gy0 (\<lambda>t. 1.0) wref wref self dae1)"

section \<open>TG1\<close>

record tg1 = governor +
  T3 :: real
  T4 :: real
  T5 :: real
  Tc :: real
  Ts :: real
  iTs :: real
  iTc :: real
  iT5 :: real
  k1 :: real
  k2 :: real
  k3 :: real
  k4 :: real
  xg1 :: nat
  xg2 :: nat
  xg3 :: nat

definition TG1_init1 ::
  "(nat \<rightharpoonup> synchronous) \<Rightarrow> tg1 list \<Rightarrow> dae \<Rightarrow> error + (tg1 list \<times> dae \<times> warning list)" where
  "TG1_init1 Synchronous self dae =
     bindE (GovernorBase_init1 Synchronous self dae) (\<lambda>(self0, dae0, ws).
     bindE (div_into (\<lambda>v t. t\<lparr>iTs := v\<rparr>) (\<lambda>t. 1) Ts self0) (\<lambda>self1.
     bindE (div_into (\<lambda>v t. t\<lparr>iTc := v\<rparr>) (\<lambda>t. 1) Tc self1) (\<lambda>self2.
     bindE (div_into (\<lambda>v t. t\<lparr>iT5 := v\<rparr>) (\<lambda>t. 1) T5 self2) (\<lambda>self3.
       let self4 = map (\<lambda>t. t\<lparr>k1 := T3 t * iTc t\<rparr>) self3;
           self5 = map (\<lambda>t. t\<lparr>k2 := 1 - k1 t\<rparr>) self4;
           self6 = map (\<lambda>t. t\<lparr>k3 := T4 t * iT5 t\<rparr>) self5;
           self7 = map (\<lambda>t. t\<lparr>k4 := 1 - k3 t\<rparr>) self6;
           dae1 = dae0\<lparr>dae_x := assign (dae_x dae0) xg1 (\<lambda>t. u t * pm0 t) self7\<rparr>;
           dae2 = dae1\<lparr>dae_x := assign (dae_x dae1) xg2 (\<lambda>t. u t * k2 t * pm0 t) self7\<rparr>;
           dae3 = dae2\<lparr>dae_x := assign (dae_x dae2) xg3 (\<lambda>t. u t * k4 t * pm0 t) self7\<rparr>
       in Inr (self7, dae3, ws)))))"

text \<open>
  \<^verbatim>\<open>super(TG1, self).fcall(dae)\<close>: \<^verbatim>\<open>GovernorBase\<close> defines no \<open>fcall\<close>, and the one of
  \<^verbatim>\<open>ModelBase\<close> is not among the sources; it is taken to store nothing.
\<close>

definition TG1_fcall :: "tg1 list \<Rightarrow> dae \<Rightarrow> error + dae" where
  "TG1_fcall self dae =
     bindE (getitem_doubles (dae_y dae) (map pin self)) (\<lambda>ypin.
       let dae1 = dae\<lparr>dae_f := assign (dae_f dae) (\<lambda>(t, v). xg1 t)
                     (\<lambda>(t, v). u t * (v - dae_x dae (xg1 t)) * iTs t) (zip self ypin)\<rparr>;
           dae2 = dae1\<lparr>dae_f := assign (dae_f dae1) xg2
                     (\<lambda>t. u t * ((1 - k1 t) * dae_x dae1 (xg1 t) - dae_x dae1 (xg2 t)) * iTc t) self\<rparr>;
           dae3 = dae2\<lparr>dae_f := assign (dae_f dae2) xg3
                     (\<lambda>t. u t * ((1 - k3 t) * (dae_x dae2 (xg2 t) + k1 t * dae_x dae2 (xg1 t))
                                 - dae_x dae2 (xg3 t)) * iT5 t) self\<rparr>
       in Inr dae3)"

definition TG1_gcall :: "tg1 list \<Rightarrow> dae \<Rightarrow> tg1 list \<times> dae" where
  "TG1_gcall self dae =
     (let (self1, dae1) = GovernorBase_gcall self dae;
          dae2 = dae1\<lparr>dae_g := assign (dae_g dae1) pout
                    (\<lambda>t. dae_x dae1 (xg3 t) + k3 t * (dae_x dae1 (xg2 t) + k1 t * dae_x dae1 (xg1 t))
                          - dae_y dae1 (pout t)) self1\<rparr>
      in (self1, dae2))"

text \<open>
  \<^verbatim>\<open>TG1.jac0\<close> adds the entries of the base class only; its own are left to do in the
  source.
\<close>

definition TG1_jac0 :: "tg1 list \<Rightarrow> dae \<Rightarrow> dae" where
  "TG1_jac0 self dae = GovernorBase_jac0 self dae"

section \<open>TG2\<close>

record tg2 = governor +
  T1 :: real
  T2 :: real
  T12 :: real
  iT2 :: real
  xg :: nat

definition TG2_init1 ::
  "(nat \<rightharpoonup> synchronous) \<Rightarrow> tg2 list \<Rightarrow> dae \<Rightarrow> error + (tg2 list \<times> dae \<times> warning list)" where
  "TG2_init1 Synchronous self dae =
     bindE (GovernorBase_init1 Synchronous self dae) (\<lambda>(self0, dae0, ws).
     bindE (div_into (\<lambda>v t. t\<lparr>T12 := v\<rparr>) T1 T2 self0) (\<lambda>self1.
     bindE (div_into (\<lambda>v t. t\<lparr>iT2 := v\<rparr>) (\<lambda>t. 1) T2 self1) (\<lambda>self2.
       let dae1 = dae0\<lparr>dae_x := assign (dae_x dae0) xg (\<lambda>t. 0) self2\<rparr>
       in Inr (self2, dae1, ws))))"

definition TG2_fcall :: "tg2 list \<Rightarrow> dae \<Rightarrow> dae" where
  "TG2_fcall self dae =
     dae\<lparr>dae_f := assign (dae_f dae) xg
              (\<lambda>t. iT2 t * (gain t * (1 - T12 t) * (wref0 t - dae_x dae (omega t)) - dae_x dae (xg t)))
              self\<rparr>"

definition TG2_gcall :: "tg2 list \<Rightarrow> dae \<Rightarrow> tg2 list \<times> dae" where
  "TG2_gcall self dae =
     (let (self1, dae1) = GovernorBase_gcall self dae;
          dae2 = dae1\<lparr>dae_g := assign (dae_g dae1) pout
                    (\<lambda>t. let pm' = dae_x dae1 (xg t) + pm0 t + gain t * T12 t * (wref0 t - dae_x dae1 (omega t))
                          in algeb_limiter pm' (pmin t) (pmax t) - dae_y dae1 (pout t)) self1\<rparr>
      in (self1, dae2))"

definition TG2_jac0 :: "tg2 list \<Rightarrow> dae \<Rightarrow> dae" where
  "TG2_jac0 self dae =
     (let dae0 = GovernorBase_jac0 self dae;
          dae1 = add_jac Fx0 (\<lambda>t. - iT2 t) xg xg self dae0;
          dae2 = add_jac Fx0 (\<lambda>t. - (iT2 t * gain t * (1 - T12 t))) xg omega self dae1;
          dae3 = add_jac Gx0 (\<lambda>t. 1.0) pout xg self dae2;
          dae4 = add_jac Gx0 (\<lambda>t. - (gain t * T12 t)) pout omega self dae3
      in add_jac Gy0 (\<lambda>t. - 1.0) pout pout self dae4)"

section \<open>Adding an instance\<close>

text \<open>
  Modelled from the spec: \<^verbatim>\<open>add(model_name, parameter_mapping)\<close> of the case construction
  layer, which is not among the sources. It creates one instance from the named values and
  the defaults of \<^verbatim>\<open>_data\<close>; a mandatory parameter (\<^verbatim>\<open>_mandatory\<close>) that the mapping does
  not name is a fatal setup error. The source declares no other check of a parameter, and
  section 9 of the spec records that a droop of zero is met only by the division in
  \<open>init1\<close>. A value is a number or the index of another device; the slots of the variables
  come from the offset allocation of the assembly.
\<close>

datatype pval = Num real | Idx nat

fun check_mandatory :: "string list \<Rightarrow> (string \<rightharpoonup> pval) \<Rightarrow> error + unit" where
  "check_mandatory [] kwargs = Inr ()"
| "check_mandatory (key # keys) kwargs =
     (case kwargs key of None \<Rightarrow> Inl (MissingMandatory key) | Some v \<Rightarrow> check_mandatory keys kwargs)"

definition num_of :: "(string \<rightharpoonup> pval) \<Rightarrow> string \<Rightarrow> real \<Rightarrow> real" where
  "num_of kwargs key dflt = (case kwargs key of Some (Num v) \<Rightarrow> v | _ \<Rightarrow> dflt)"

definition idx_of :: "(string \<rightharpoonup> pval) \<Rightarrow> string \<Rightarrow> nat" where
  "idx_of kwargs key = (case kwargs key of Some (Idx i) \<Rightarrow> i | _ \<Rightarrow> 0)"

definition GovernorBase_mandatory :: "string list" where
  "GovernorBase_mandatory = [''gen'', ''R'']"

definition TG1_mandatory :: "string list" where
  "TG1_mandatory = GovernorBase_mandatory @ [''T5'', ''Tc'', ''Ts'']"

definition TG2_mandatory :: "string list" where
  "TG2_mandatory = GovernorBase_mandatory @ [''T2'']"

definition TG1_add :: "(string \<rightharpoonup> pval) \<Rightarrow> nat \<Rightarrow> nat \<Rightarrow> nat \<Rightarrow> nat \<Rightarrow> nat \<Rightarrow> error + tg1" where
  "TG1_add kwargs wref_slot pout_slot xg1_slot xg2_slot xg3_slot =
     bindE (check_mandatory TG1_mandatory kwargs) (\<lambda>_. Inr
       \<lparr>u = num_of kwargs ''u'' 1, gen = idx_of kwargs ''gen'',
        pmax = num_of kwargs ''pmax'' 1.0, pmin = num_of kwargs ''pmin'' 0.0,
        R = num_of kwargs ''R'' 0.05, wref0 = num_of kwargs ''wref0'' 1.0,
        wref = wref_slot, pout = pout_slot,
        Sn = 0, pm0 = 0, gain = 0, pin = 0, omega = 0, pm = 0,
        T3 = num_of kwargs ''T3'' 0.0, T4 = num_of kwargs ''T4'' 12.0, T5 = num_of kwargs ''T5'' 50.0,
        Tc = num_of kwargs ''Tc'' 0.56, Ts = num_of kwargs ''Ts'' 0.1,
        iTs = 0, iTc = 0, iT5 = 0, k1 = 0, k2 = 0, k3 = 0, k4 = 0,
        xg1 = xg1_slot, xg2 = xg2_slot, xg3 = xg3_slot\<rparr>)"

definition TG2_add :: "(string \<rightharpoonup> pval) \<Rightarrow> nat \<Rightarrow> nat \<Rightarrow> nat \<Rightarrow> error + tg2" where
  "TG2_add kwargs wref_slot pout_slot xg_slot =
     bindE (check_mandatory TG2_mandatory kwargs) (\<lambda>_. Inr
       \<lparr>u = num_of kwargs ''u'' 1, gen = idx_of kwargs ''gen'',
        pmax = num_of kwargs ''pmax'' 1.0, pmin = num_of kwargs ''pmin'' 0.0,
        R = num_of kwargs ''R'' 0.05, wref0 = num_of kwargs ''wref0'' 1.0,
        wref = wref_slot, pout = pout_slot,
        Sn = 0, pm0 = 0, gain = 0, pin = 0, omega = 0, pm = 0,
        T1 = num_of kwargs ''T1'' 0.2, T2 = num_of kwargs ''T2'' 10.0, T12 = 0, iT2 = 0,
        xg = xg_slot\<rparr>)"

section \<open>The registered models and their callbacks\<close>

text \<open>
  Modelled from the spec: the outer assembly drives every registered device model through
  the same callbacks (section 4.1). A model is the vector of the instances of one class.
\<close>

datatype model = TG1 "tg1 list" | TG2 "tg2 list"

fun gcall :: "model \<Rightarrow> dae \<Rightarrow> model \<times> dae" where
  "gcall (TG1 self) dae = (let (self', dae') = TG1_gcall self dae in (TG1 self', dae'))"
| "gcall (TG2 self) dae = (let (self', dae') = TG2_gcall self dae in (TG2 self', dae'))"

text \<open>
  \<open>fcall\<close> of a registered model. No statement of \<^verbatim>\<open>TG1.fcall\<close> or \<^verbatim>\<open>TG2.fcall\<close> assigns an
  attribute of \<open>self\<close>, so the callback returns the vectors only. The derivative
  contributions of a model are what its \<open>fcall\<close> leaves in the rows of its own states.
\<close>

fun fcall :: "model \<Rightarrow> dae \<Rightarrow> error + dae" where
  "fcall (TG1 self) dae = TG1_fcall self dae"
| "fcall (TG2 self) dae = Inr (TG2_fcall self dae)"

fun states :: "model \<Rightarrow> nat list" where
  "states (TG1 self) = map xg1 self @ map xg2 self @ map xg3 self"
| "states (TG2 self) = map xg self"

definition derivatives :: "model \<Rightarrow> dae \<Rightarrow> error + real list" where
  "derivatives A dae =
     (case fcall A dae of
        Inl e \<Rightarrow> Inl e
      | Inr dae' \<Rightarrow> Inr (map (dae_f dae') (states A)))"




section \<open>STAB2A: the declared parameters\<close>








section \<open>STAB2A: the declared model\<close>

text \<open>
  \<^verbatim>\<open>andes/models/pss/stab2a.py\<close> declares the stabilizer for the symbolic framework of
  \<^verbatim>\<open>andes.core\<close>: parameters, variables with their equations as strings, and blocks wired
  by reference. The strings are read here as expressions over the names of the variables
  and parameters.
\<close>

datatype expr =
    Sym string
  | Lit real
  | Plus expr expr
  | Minus expr expr
  | Times expr expr
  | Over expr expr
  | Power expr nat

text \<open>The value of an expression; a division by zero has none.\<close>

fun evaluate :: "(string \<Rightarrow> real) \<Rightarrow> expr \<Rightarrow> real option" where
  "evaluate env (Sym x) = Some (env x)"
| "evaluate env (Lit c) = Some c"
| "evaluate env (Plus a b) =
     (case (evaluate env a, evaluate env b) of (Some p, Some q) \<Rightarrow> Some (p + q) | _ \<Rightarrow> None)"
| "evaluate env (Minus a b) =
     (case (evaluate env a, evaluate env b) of (Some p, Some q) \<Rightarrow> Some (p - q) | _ \<Rightarrow> None)"
| "evaluate env (Times a b) =
     (case (evaluate env a, evaluate env b) of (Some p, Some q) \<Rightarrow> Some (p * q) | _ \<Rightarrow> None)"
| "evaluate env (Over a b) =
     (case (evaluate env a, evaluate env b) of
        (Some p, Some q) \<Rightarrow> (if q = 0 then None else Some (p / q))
      | _ \<Rightarrow> None)"
| "evaluate env (Power a n) = (case evaluate env a of Some p \<Rightarrow> Some (p ^ n) | None \<Rightarrow> None)"

text \<open>
  The names that an expression mentions.
\<close>

fun symbols :: "expr \<Rightarrow> string list" where
  "symbols (Sym x) = [x]"
| "symbols (Lit c) = []"
| "symbols (Plus a b) = symbols a @ symbols b"
| "symbols (Minus a b) = symbols a @ symbols b"
| "symbols (Times a b) = symbols a @ symbols b"
| "symbols (Over a b) = symbols a @ symbols b"
| "symbols (Power a n) = symbols a"

text \<open>
  What \<^verbatim>\<open>__init__\<close> declares, each with the name of its attribute. A block names its
  input \<open>u\<close> and its parameters; an \<^verbatim>\<open>Algeb\<close> has an optional initial value \<^verbatim>\<open>v_str\<close> and
  its equation \<^verbatim>\<open>e_str\<close>.
\<close>

datatype component =
    ExtService string string string string string
  | Algeb string "expr option" expr
  | Gain string string string
  | WashoutOrLag string string string string bool
  | Lag string string string string
  | Limiter string string string string

text \<open>\<^verbatim>\<open>self.vsout.e_str = ...\<close>: the equation of a variable that the base class declared.\<close>

fun set_e_str :: "string \<Rightarrow> expr \<Rightarrow> component list \<Rightarrow> component list" where
  "set_e_str x e [] = []"
| "set_e_str x e (Algeb y v e' # cs) =
     (if x = y then Algeb y v e # set_e_str x e cs else Algeb y v e' # set_e_str x e cs)"
| "set_e_str x e (c # cs) = c # set_e_str x e cs"

text \<open>
  \<^verbatim>\<open>STAB2AModel.__init__\<close>, after the declarations of \<^verbatim>\<open>PSSBase\<close> (which is not among the
  sources, and declares \<open>vsout\<close>).
\<close>

definition STAB2AModel_init :: "component list \<Rightarrow> component list" where
  "STAB2AModel_init PSSBase =
     set_e_str ''vsout''
       (Minus (Plus (Plus (Times (Sym ''HLIM_zi'') (Sym ''V4''))
                          (Times (Sym ''HLIM_zu'') (Sym ''HLIM_MAX'')))
                    (Times (Sym ''HLIM_zl'') (Sym ''HLIM_MIN'')))
              (Sym ''vsout''))
       (PSSBase @
        [ExtService ''SnSb'' ''SynGen'' ''M'' ''syn'' ''pu_coeff'',
         Algeb ''sig'' (Some (Over (Sym ''tm0'') (Sym ''SnSb'')))
                       (Minus (Over (Sym ''te'') (Sym ''SnSb'')) (Sym ''sig'')),
         Gain ''PK2'' ''sig'' ''K2'',
         WashoutOrLag ''WO'' ''PK2_y'' ''T2'' ''T2'' False,
         Algeb ''V1'' None (Minus (Power (Sym ''WO_y'') 3) (Sym ''V1'')),
         Gain ''PK4'' ''V1'' ''K4'',
         Lag ''V2'' ''V1'' ''T3'' ''K3'',
         Algeb ''V3'' None (Minus (Plus (Sym ''PK4_y'') (Sym ''V2_y'')) (Sym ''V3'')),
         Lag ''L1'' ''V3'' ''T5'' ''K5'',
         Algeb ''V4'' None (Minus (Power (Sym ''L1_y'') 2) (Sym ''V4'')),
         Limiter ''HLIM'' ''V4'' ''HLIM_MIN'' ''HLIM_MAX''])"

section \<open>The block library\<close>

text \<open>
  Modelled from the spec: the blocks of \<^verbatim>\<open>andes.core.block\<close> and the \<^verbatim>\<open>Limiter\<close> of
  \<^verbatim>\<open>andes.core\<close>, which are not among the sources (section 4.2). An equation is algebraic
  (the residual of a variable) or differential (a state \<open>x\<close> with
  \<open>dx/dt = numerator / T\<close>). The output of a block named \<open>B\<close> is the variable \<open>B_y\<close>, as the
  source uses it (\<^verbatim>\<open>PK2_y\<close>, \<^verbatim>\<open>WO_y\<close>, \<^verbatim>\<open>V2_y\<close>, \<^verbatim>\<open>L1_y\<close>); the state of a washout is
  \<open>B_x\<close>.
  \<^item> Gain: output \<open>= K * input\<close>.
  \<^item> Lag: one state with \<open>dx/dt = (K * input - x) / T\<close>; the output is the state.
  \<^item> Washout: one state with \<open>dx/dt = (K * input - x) / T\<close>; the output is
    \<open>K * input - x\<close>.
\<close>

datatype equation = Alg string expr | Dif string expr string

fun equations :: "component \<Rightarrow> equation list" where
  "equations (ExtService x m s i a) = []"
| "equations (Algeb x v e) = [Alg x e]"
| "equations (Gain b inp K) =
     [Alg (b @ ''_y'') (Minus (Times (Sym K) (Sym inp)) (Sym (b @ ''_y'')))]"
| "equations (WashoutOrLag b inp T K zero_out) =
     [Dif (b @ ''_x'') (Minus (Times (Sym K) (Sym inp)) (Sym (b @ ''_x''))) T,
      Alg (b @ ''_y'') (Minus (Minus (Times (Sym K) (Sym inp)) (Sym (b @ ''_x''))) (Sym (b @ ''_y'')))]"
| "equations (Lag b inp T K) =
     [Dif (b @ ''_y'') (Minus (Times (Sym K) (Sym inp)) (Sym (b @ ''_y''))) T]"
| "equations (Limiter b inp lower upper) = []"

text \<open>
  Modelled from the spec: the limiter is a three-way classifier of its input against the
  bounds, with the flags \<open>zi\<close> (within the limits), \<open>zu\<close> (at the upper bound) and \<open>zl\<close> (at
  the lower bound), each \<open>0\<close> or \<open>1\<close>.
\<close>

definition Limiter_check :: "real \<Rightarrow> real \<Rightarrow> real \<Rightarrow> real \<times> real \<times> real" where
  "Limiter_check inp lower upper =
     (if inp \<ge> upper then (0, 1, 0) else if inp \<le> lower then (0, 0, 1) else (1, 0, 0))"

text \<open>
  A valuation of the names satisfies the algebraic part of a model when every algebraic
  residual is \<open>0\<close> and the flags of every limiter are those of its input.
\<close>

fun residual_zero :: "(string \<Rightarrow> real) \<Rightarrow> equation \<Rightarrow> bool" where
  "residual_zero env (Alg x e) = (evaluate env e = Some 0)"
| "residual_zero env (Dif x e T) = True"

fun flags_set :: "(string \<Rightarrow> real) \<Rightarrow> component \<Rightarrow> bool" where
  "flags_set env (Limiter b inp lower upper) =
     ((env (b @ ''_zi''), env (b @ ''_zu''), env (b @ ''_zl''))
        = Limiter_check (env inp) (env lower) (env upper))"
| "flags_set env c = True"

definition algebraic_ok :: "(string \<Rightarrow> real) \<Rightarrow> component list \<Rightarrow> bool" where
  "algebraic_ok env cs =
     (list_all (residual_zero env) (concat (map equations cs)) \<and> list_all (flags_set env) cs)"

text \<open>A signal \<open>a\<close> feeds a signal \<open>b\<close> when a component reads \<open>a\<close> and provides \<open>b\<close>.\<close>

fun reads :: "component \<Rightarrow> string list" where
  "reads (ExtService x m s i a) = []"
| "reads (Algeb x v e) = removeAll x (symbols e)"
| "reads (Gain b inp K) = [inp]"
| "reads (WashoutOrLag b inp T K zero_out) = [inp]"
| "reads (Lag b inp T K) = [inp]"
| "reads (Limiter b inp lower upper) = [inp]"

fun provides :: "component \<Rightarrow> string list" where
  "provides (ExtService x m s i a) = [x]"
| "provides (Algeb x v e) = [x]"
| "provides (Gain b inp K) = [b @ ''_y'']"
| "provides (WashoutOrLag b inp T K zero_out) = [b @ ''_y'']"
| "provides (Lag b inp T K) = [b @ ''_y'']"
| "provides (Limiter b inp lower upper) = [b @ ''_zi'', b @ ''_zu'', b @ ''_zl'']"

definition feeds :: "component list \<Rightarrow> string \<Rightarrow> string \<Rightarrow> bool" where
  "feeds cs a b = list_ex (\<lambda>c. a \<in> set (reads c) \<and> b \<in> set (provides c)) cs"

section \<open>One instance at a time\<close>

text \<open>
  What a successful \<open>init1\<close> does to a single instance. These functions are not in the
  source: they are derived from the vectorised callbacks above, and the lemmas
  \<open>GovernorBase_init1_Inr_D\<close>, \<open>TG1_init1_Inr_D\<close> and \<open>TG2_init1_Inr_D\<close> prove that the
  callbacks compute them on every instance.
\<close>

definition GovernorBase_inst1 :: "(nat \<rightharpoonup> synchronous) \<Rightarrow> 'a governor_scheme \<Rightarrow> 'a governor_scheme" where
  "GovernorBase_inst1 Synchronous t =
     (let s = the (Synchronous (gen t)); p = syn_pm0 s
      in t\<lparr>gain := 1 / R t, Sn := syn_Sn s,
           pm0 := (if p > pmax t then pmax t else if p < pmin t then pmin t else p),
           omega := syn_omega s, pm := syn_pm s\<rparr>)"

definition TG1_inst1 :: "(nat \<rightharpoonup> synchronous) \<Rightarrow> tg1 \<Rightarrow> tg1" where
  "TG1_inst1 Synchronous t =
     (let a = T3 t * (1 / Tc t); b = T4 t * (1 / T5 t)
      in (GovernorBase_inst1 Synchronous t)
           \<lparr>iTs := 1 / Ts t, iTc := 1 / Tc t, iT5 := 1 / T5 t,
            k1 := a, k2 := 1 - a, k3 := b, k4 := 1 - b\<rparr>)"

definition TG2_inst1 :: "(nat \<rightharpoonup> synchronous) \<Rightarrow> tg2 \<Rightarrow> tg2" where
  "TG2_inst1 Synchronous t = (GovernorBase_inst1 Synchronous t)\<lparr>T12 := T1 t / T2 t, iT2 := 1 / T2 t\<rparr>"

section \<open>Partial derivatives\<close>

text \<open>
  The partial derivative that an entry \<open>(row, col)\<close> of a block stands for, at a state
  \<open>dae\<close>: the residual that \<open>fcall\<close> (blocks \<open>Fx0\<close>, \<open>Fy0\<close>) or \<open>gcall\<close> (blocks \<open>Gx0\<close>,
  \<open>Gy0\<close>) stores in the row is differentiated in the variable of the column, an entry of
  \<open>dae.x\<close> (blocks \<open>Fx0\<close>, \<open>Gx0\<close>) or of \<open>dae.y\<close> (blocks \<open>Fy0\<close>, \<open>Gy0\<close>), all other
  variables fixed.
\<close>

definition TG2_partial :: "tg2 list \<Rightarrow> dae \<Rightarrow> jname \<times> real \<times> nat \<times> nat \<Rightarrow> bool" where
  "TG2_partial self dae e =
     (case e of (m, v, row, col) \<Rightarrow>
        (case m of
           Fx0 \<Rightarrow> ((\<lambda>s. dae_f (TG2_fcall self (dae\<lparr>dae_x := (dae_x dae)(col := s)\<rparr>)) row)
                     has_real_derivative v) (at (dae_x dae col))
         | Fy0 \<Rightarrow> ((\<lambda>s. dae_f (TG2_fcall self (dae\<lparr>dae_y := (dae_y dae)(col := s)\<rparr>)) row)
                     has_real_derivative v) (at (dae_y dae col))
         | Gx0 \<Rightarrow> ((\<lambda>s. dae_g (snd (TG2_gcall self (dae\<lparr>dae_x := (dae_x dae)(col := s)\<rparr>))) row)
                     has_real_derivative v) (at (dae_x dae col))
         | Gy0 \<Rightarrow> ((\<lambda>s. dae_g (snd (TG2_gcall self (dae\<lparr>dae_y := (dae_y dae)(col := s)\<rparr>))) row)
                     has_real_derivative v) (at (dae_y dae col))))"

section \<open>Scenarios\<close>

text \<open>
  Scenario A of the specification: a TG1 governor with the default data of the class, on a
  generator with initial mechanical power 1.0 and speed 1.0.
\<close>

definition scenario_A :: tg1 where
  "scenario_A =
     \<lparr>u = 1, gen = 1, pmax = 1.0, pmin = 0.0, R = 0.05, wref0 = 1.0, wref = 0, pout = 1,
      Sn = 0, pm0 = 0, gain = 0, pin = 0, omega = 0, pm = 0,
      T3 = 0.0, T4 = 12.0, T5 = 50.0, Tc = 0.56, Ts = 0.1,
      iTs = 0, iTc = 0, iT5 = 0, k1 = 0, k2 = 0, k3 = 0, k4 = 0, xg1 = 1, xg2 = 2, xg3 = 3\<rparr>"

definition generator_A :: "nat \<rightharpoonup> synchronous" where
  "generator_A = [1 \<mapsto> \<lparr>syn_Sn = 100, syn_pm0 = 1.0, syn_omega = 0, syn_pm = 2\<rparr>]"

text \<open>
  States of the assembly: the generator (speed in slot 0 of \<^verbatim>\<open>dae.x\<close>) at the reference
  speed, at 0.99 and at 1.01 of it.
\<close>

definition dae_start :: dae where
  "dae_start = \<lparr>dae_x = (\<lambda>_. 0)(0 := 1), dae_y = (\<lambda>_. 0), dae_f = (\<lambda>_. 0), dae_g = (\<lambda>_. 0), dae_jac = []\<rparr>"

definition dae_slow :: dae where
  "dae_slow = \<lparr>dae_x = (\<lambda>_. 0)(0 := 0.99), dae_y = (\<lambda>_. 0), dae_f = (\<lambda>_. 0), dae_g = (\<lambda>_. 0), dae_jac = []\<rparr>"

definition dae_fast :: dae where
  "dae_fast = \<lparr>dae_x = (\<lambda>_. 0)(0 := 1.01), dae_y = (\<lambda>_. 0), dae_f = (\<lambda>_. 0), dae_g = (\<lambda>_. 0), dae_jac = []\<rparr>"


text \<open>
  The governor of scenario A out of service; a TG2 governor with the default data of the
  class, and the same on slots of its own.
\<close>

definition offline_A :: tg1 where
  "offline_A = scenario_A\<lparr>u := 0\<rparr>"

definition simple_B :: tg2 where
  "simple_B =
     \<lparr>u = 1, gen = 1, pmax = 1.0, pmin = 0.0, R = 0.05, wref0 = 1.0, wref = 0, pout = 1,
      Sn = 0, pm0 = 0, gain = 0, pin = 0, omega = 0, pm = 0,
      T1 = 0.2, T2 = 10.0, T12 = 0, iT2 = 0, xg = 1\<rparr>"


text \<open>
  Generators with initial mechanical power 0.5 and, as in scenario B of the specification,
  1.05.
\<close>

definition generator_half :: "nat \<rightharpoonup> synchronous" where
  "generator_half = [1 \<mapsto> \<lparr>syn_Sn = 100, syn_pm0 = 0.5, syn_omega = 0, syn_pm = 2\<rparr>]"

definition generator_B :: "nat \<rightharpoonup> synchronous" where
  "generator_B = [1 \<mapsto> \<lparr>syn_Sn = 100, syn_pm0 = 1.05, syn_omega = 0, syn_pm = 2\<rparr>]"

text \<open>
  Scenario C of the specification: the named values of an instance with a droop of zero.
\<close>

definition zero_droop :: "string \<rightharpoonup> pval" where
  "zero_droop = [''gen'' \<mapsto> Idx 1, ''R'' \<mapsto> Num 0, ''T2'' \<mapsto> Num 10, ''T5'' \<mapsto> Num 50,
                 ''Tc'' \<mapsto> Num 0.56, ''Ts'' \<mapsto> Num 0.1]"



text \<open>
  A state of the stabilizer: the generator delivers \<open>te = 2\<close> on its own base, the washout
  state is \<open>1.5\<close>, the lag states are \<open>0.375\<close> and \<open>0.5\<close>, the gains and time constants are the
  defaults \<open>1\<close>, the limits the defaults \<open>0.3\<close> and \<open>- 0.3\<close>. A name without a value is
  \<open>0\<close>.
\<close>

definition env_of :: "(string \<times> real) list \<Rightarrow> string \<Rightarrow> real" where
  "env_of xs x = (case map_of xs x of Some c \<Rightarrow> c | None \<Rightarrow> 0)"

definition stab2a_state :: "string \<Rightarrow> real" where
  "stab2a_state = env_of
     [(''SnSb'', 1), (''te'', 2), (''sig'', 2), (''K2'', 1), (''PK2_y'', 2), (''T2'', 1),
      (''WO_x'', 1.5), (''WO_y'', 0.5), (''V1'', 0.125), (''K4'', 1), (''PK4_y'', 0.125),
      (''K3'', 1), (''T3'', 1), (''V2_y'', 0.375), (''V3'', 0.5), (''K5'', 1), (''T5'', 1),
      (''L1_y'', 0.5), (''V4'', 0.25), (''HLIM_MAX'', 0.3), (''HLIM_MIN'', - 0.3),
      (''HLIM_zi'', 1), (''HLIM_zu'', 0), (''HLIM_zl'', 0), (''vsout'', 0.25)]"

text \<open>
  A base class that declares \<open>vsout\<close>, with an equation that \<^verbatim>\<open>STAB2AModel\<close> replaces.
\<close>

definition PSSBase_vsout :: "component list" where
  "PSSBase_vsout = [Algeb ''vsout'' None (Minus (Lit 0) (Sym ''vsout''))]"

section \<open>Vector stores and fallible steps\<close>

lemma assign_notin: "r \<notin> idx ` set self \<Longrightarrow> assign m idx val self r = m r"
  unfolding assign_def by (induction self arbitrary: m) auto

lemma assign_distinct:
  "distinct (map idx self) \<Longrightarrow> t \<in> set self \<Longrightarrow> assign m idx val self (idx t) = val t"
proof (induction self arbitrary: m)
  case Nil
  then show ?case by simp
next
  case (Cons a self)
  show ?case
  proof (cases "t = a")
    case True
    from Cons.prems have "idx a \<notin> idx ` set self" by auto
    then have "assign (m(idx a := val a)) idx val self (idx a) = (m(idx a := val a)) (idx a)"
      by (rule assign_notin)
    with True show ?thesis by (simp add: assign_def)
  next
    case False
    with Cons.prems have "t \<in> set self" "distinct (map idx self)" by auto
    then have "assign (m(idx a := val a)) idx val self (idx t) = val t"
      using Cons.IH by blast
    then show ?thesis by (simp add: assign_def)
  qed
qed

lemma div_into_Inr_D:
  "div_into dest num den self = Inr self' \<Longrightarrow>
     (\<forall>t\<in>set self. den t \<noteq> 0) \<and> self' = map (\<lambda>t. dest (num t / den t) t) self"
  unfolding div_into_def
  by (induction self arbitrary: self') (auto split: sum.splits if_splits)

lemma div_into_Inr_I:
  "\<forall>t\<in>set self. den t \<noteq> 0 \<Longrightarrow>
     div_into dest num den self = Inr (map (\<lambda>t. dest (num t / den t) t) self)"
  unfolding div_into_def by (induction self) auto

lemma copy_param_Inr_D:
  "copy_param model src dest fkey self = Inr self' \<Longrightarrow>
     (\<forall>t\<in>set self. model (fkey t) \<noteq> None) \<and>
     self' = map (\<lambda>t. dest (src (the (model (fkey t)))) t) self"
  unfolding copy_param_def
  by (induction self arbitrary: self') (auto split: sum.splits option.splits)

lemma copy_param_Inr_I:
  "\<forall>t\<in>set self. model (fkey t) \<noteq> None \<Longrightarrow>
     copy_param model src dest fkey self = Inr (map (\<lambda>t. dest (src (the (model (fkey t)))) t) self)"
  unfolding copy_param_def by (induction self) auto

lemma bindE_Inr_iff: "bindE r k = Inr b \<longleftrightarrow> (\<exists>a. r = Inr a \<and> k a = Inr b)"
  by (cases r) (simp_all add: bindE_def)

lemma assign_find:
  "assign m idx val self r =
     (case find (\<lambda>t. idx t = r) (rev self) of None \<Rightarrow> m r | Some t \<Rightarrow> val t)"
  by (induction self rule: rev_induct) (simp_all add: assign_def)

lemma find_snoc:
  "find P (xs @ [a]) = (case find P xs of None \<Rightarrow> (if P a then Some a else None) | Some b \<Rightarrow> Some b)"
  by (induction xs) simp_all

lemma find_rev_Some_mem:
  "find P (rev xs) = Some a \<Longrightarrow> a \<in> set xs \<and> P a"
  by (induction xs) (auto simp: find_snoc split: option.splits if_splits)

text \<open>
  A slot of an instance of the vector holds, after the store, the value of an instance with
  this slot, whatever the vector held before.
\<close>

lemma assign_own_slot:
  assumes t: "t \<in> set self"
  shows "\<exists>t'\<in>set self. idx t' = idx t \<and> (\<forall>m. assign m idx val self (idx t) = val t')"
proof -
  from t have "find (\<lambda>t'. idx t' = idx t) (rev self) \<noteq> None"
    by (auto simp: find_None_iff)
  then obtain t' where f: "find (\<lambda>t'. idx t' = idx t) (rev self) = Some t'" by auto
  from find_rev_Some_mem [OF f] have "t' \<in> set self" "idx t' = idx t" by simp_all
  with f show ?thesis by (auto simp: assign_find)
qed

lemma assign_same:
  assumes t: "t \<in> set self"
    and v: "\<And>t'. t' \<in> set self \<Longrightarrow> idx t' = idx t \<Longrightarrow> val t' = c"
  shows "assign m idx val self (idx t) = c"
proof -
  from t have "find (\<lambda>t'. idx t' = idx t) (rev self) \<noteq> None"
    by (auto simp: find_None_iff)
  then obtain t' where f: "find (\<lambda>t'. idx t' = idx t) (rev self) = Some t'" by auto
  from find_rev_Some_mem [OF f] have "t' \<in> set self" "idx t' = idx t" by simp_all
  with v have "val t' = c" by simp
  with f show ?thesis by (simp add: assign_find)
qed

section \<open>What a successful init1 computes\<close>

lemma GovernorBase_init1_Inr_D:
  assumes "GovernorBase_init1 Synchronous self dae = Inr (self', dae', ws)"
  shows "\<forall>t\<in>set self. R t \<noteq> 0 \<and> Synchronous (gen t) \<noteq> None"
    and "self' = map (GovernorBase_inst1 Synchronous) self"
    and "dae' = dae\<lparr>dae_y := assign (assign (dae_y dae) wref wref0 self') pout pm0 self'\<rparr>"
proof -
  from assms obtain self1 self2 self3 self4 self5 where
    s1: "div_into (\<lambda>v t. t\<lparr>gain := v\<rparr>) (\<lambda>t. 1.0) R self = Inr self1" and
    s2: "copy_param Synchronous syn_Sn (\<lambda>v t. t\<lparr>Sn := v\<rparr>) gen self1 = Inr self2" and
    s3: "copy_param Synchronous syn_pm0 (\<lambda>v t. t\<lparr>pm0 := v\<rparr>) gen self2 = Inr self3" and
    s4: "copy_param Synchronous syn_omega (\<lambda>v t. t\<lparr>omega := v\<rparr>) gen self3 = Inr self4" and
    s5: "copy_param Synchronous syn_pm (\<lambda>v t. t\<lparr>pm := v\<rparr>) gen self4 = Inr self5" and
    s6: "self' = fst (limit_check ''pm0'' pm0 (\<lambda>v t. t\<lparr>pm0 := v\<rparr>) pmin pmax self5)" and
    d: "dae' = dae\<lparr>dae_y := assign (assign (dae_y dae) wref wref0 self') pout pm0 self'\<rparr>"
    unfolding GovernorBase_init1_def bindE_Inr_iff
    by (auto simp: Let_def case_prod_beta)
  note e1 = div_into_Inr_D [OF s1] and e2 = copy_param_Inr_D [OF s2]
    and e3 = copy_param_Inr_D [OF s3] and e4 = copy_param_Inr_D [OF s4]
    and e5 = copy_param_Inr_D [OF s5]
  from e1 show "\<forall>t\<in>set self. R t \<noteq> 0 \<and> Synchronous (gen t) \<noteq> None"
    using e2 by auto
  show "self' = map (GovernorBase_inst1 Synchronous) self"
    unfolding s6 limit_check_def
    by (simp add: e1 e2 e3 e4 e5 GovernorBase_inst1_def Let_def o_def)
  show "dae' = dae\<lparr>dae_y := assign (assign (dae_y dae) wref wref0 self') pout pm0 self'\<rparr>"
    by (rule d)
qed

lemma assign_map:
  "assign m idx val (map F self) = assign m (\<lambda>t. idx (F t)) (\<lambda>t. val (F t)) self"
  unfolding assign_def by (simp add: foldl_map)

lemma TG1_init1_Inr_D:
  assumes "TG1_init1 Synchronous self dae = Inr (self', dae', ws)"
  shows "\<forall>t\<in>set self. R t \<noteq> 0 \<and> Synchronous (gen t) \<noteq> None \<and> Ts t \<noteq> 0 \<and> Tc t \<noteq> 0 \<and> T5 t \<noteq> 0"
    and "self' = map (TG1_inst1 Synchronous) self"
    and "dae_y dae' = assign (assign (dae_y dae) wref wref0 self') pout pm0 self'"
    and "dae_x dae' = assign (assign (assign (dae_x dae) xg1 (\<lambda>t. u t * pm0 t) self')
                                 xg2 (\<lambda>t. u t * k2 t * pm0 t) self')
                                 xg3 (\<lambda>t. u t * k4 t * pm0 t) self'"
proof -
  from assms obtain self0 dae0 self1 self2 self3 where
    b: "GovernorBase_init1 Synchronous self dae = Inr (self0, dae0, ws)" and
    s1: "div_into (\<lambda>v t. t\<lparr>iTs := v\<rparr>) (\<lambda>t. 1) Ts self0 = Inr self1" and
    s2: "div_into (\<lambda>v t. t\<lparr>iTc := v\<rparr>) (\<lambda>t. 1) Tc self1 = Inr self2" and
    s3: "div_into (\<lambda>v t. t\<lparr>iT5 := v\<rparr>) (\<lambda>t. 1) T5 self2 = Inr self3" and
    s4: "self' = map (\<lambda>t. t\<lparr>k4 := 1 - k3 t\<rparr>) (map (\<lambda>t. t\<lparr>k3 := T4 t * iT5 t\<rparr>)
                  (map (\<lambda>t. t\<lparr>k2 := 1 - k1 t\<rparr>) (map (\<lambda>t. t\<lparr>k1 := T3 t * iTc t\<rparr>) self3)))" and
    d: "dae' = dae0\<lparr>dae_x := assign (assign (assign (dae_x dae0) xg1 (\<lambda>t. u t * pm0 t) self')
                                 xg2 (\<lambda>t. u t * k2 t * pm0 t) self')
                                 xg3 (\<lambda>t. u t * k4 t * pm0 t) self'\<rparr>"
    unfolding TG1_init1_def
    by (auto simp: bindE_Inr_iff Let_def case_prod_beta)
  note g = GovernorBase_init1_Inr_D [OF b]
  note e1 = div_into_Inr_D [OF s1] and e2 = div_into_Inr_D [OF s2] and e3 = div_into_Inr_D [OF s3]
  have m: "self0 = map (GovernorBase_inst1 Synchronous) self" by (rule g(2))
  have p: "\<And>t. Ts (GovernorBase_inst1 Synchronous t) = Ts t"
      "\<And>t. Tc (GovernorBase_inst1 Synchronous t) = Tc t"
      "\<And>t. T5 (GovernorBase_inst1 Synchronous t) = T5 t"
      "\<And>t. T3 (GovernorBase_inst1 Synchronous t) = T3 t"
      "\<And>t. T4 (GovernorBase_inst1 Synchronous t) = T4 t"
    by (simp_all add: GovernorBase_inst1_def Let_def)
  show "\<forall>t\<in>set self. R t \<noteq> 0 \<and> Synchronous (gen t) \<noteq> None \<and> Ts t \<noteq> 0 \<and> Tc t \<noteq> 0 \<and> T5 t \<noteq> 0"
    using g(1) e1 e2 e3 by (auto simp: m p)
  show s: "self' = map (TG1_inst1 Synchronous) self"
    unfolding s4 by (simp add: e1 e2 e3 m p TG1_inst1_def Let_def o_def)
  have w: "map wref self0 = map wref self'" "map pout self0 = map pout self'"
       "map wref0 self0 = map wref0 self'" "map pm0 self0 = map pm0 self'"
    unfolding s m by (simp_all add: TG1_inst1_def Let_def)
  have "dae_y dae' = assign (assign (dae_y dae) wref wref0 self0) pout pm0 self0"
    unfolding d using g(3) by simp
  also have "\<dots> = assign (assign (dae_y dae) wref wref0 self') pout pm0 self'"
    unfolding s m by (simp add: assign_map TG1_inst1_def Let_def)
  finally show "dae_y dae' = assign (assign (dae_y dae) wref wref0 self') pout pm0 self'" .
  show "dae_x dae' = assign (assign (assign (dae_x dae) xg1 (\<lambda>t. u t * pm0 t) self')
                                 xg2 (\<lambda>t. u t * k2 t * pm0 t) self')
                                 xg3 (\<lambda>t. u t * k4 t * pm0 t) self'"
    unfolding d using g(3) by simp
qed

section \<open>What gcall stores\<close>

lemma GovernorBase_gcall_snd:
  "snd (GovernorBase_gcall self dae) =
     dae\<lparr>dae_g := assign (assign (dae_g dae) pm
                                (\<lambda>t. dae_g dae (pm t) + (pm0 t - u t * dae_y dae (pout t))) self)
                         wref (\<lambda>t. dae_y dae (wref t) - wref0 t) self\<rparr>"
  by (simp add: GovernorBase_gcall_def Let_def assign_map)

lemma TG1_gcall_snd:
  "snd (TG1_gcall self dae) =
     dae\<lparr>dae_g := assign (assign (assign (dae_g dae) pm
                                (\<lambda>t. dae_g dae (pm t) + (pm0 t - u t * dae_y dae (pout t))) self)
                         wref (\<lambda>t. dae_y dae (wref t) - wref0 t) self)
                  pout (\<lambda>t. dae_x dae (xg3 t) + k3 t * (dae_x dae (xg2 t) + k1 t * dae_x dae (xg1 t))
                          - dae_y dae (pout t)) self\<rparr>"
  by (simp add: TG1_gcall_def GovernorBase_gcall_def Let_def assign_map)

lemma TG1_gcall_rows:
  assumes "distinct (map wref self @ map pout self)" and "t \<in> set self"
  shows "dae_g (snd (TG1_gcall self dae)) (pout t) =
           dae_x dae (xg3 t) + k3 t * (dae_x dae (xg2 t) + k1 t * dae_x dae (xg1 t)) - dae_y dae (pout t)"
    and "dae_g (snd (TG1_gcall self dae)) (wref t) = dae_y dae (wref t) - wref0 t"
proof -
  from assms have dp: "distinct (map pout self)" and dw: "distinct (map wref self)"
    and n: "wref t \<notin> pout ` set self"
    by auto
  show "dae_g (snd (TG1_gcall self dae)) (pout t) =
           dae_x dae (xg3 t) + k3 t * (dae_x dae (xg2 t) + k1 t * dae_x dae (xg1 t)) - dae_y dae (pout t)"
    by (simp add: TG1_gcall_snd assign_distinct [OF dp assms(2)])
  show "dae_g (snd (TG1_gcall self dae)) (wref t) = dae_y dae (wref t) - wref0 t"
    by (simp add: TG1_gcall_snd assign_notin [OF n] assign_distinct [OF dw assms(2)])
qed

lemma TG1_inst1_slots [simp]:
  "xg1 (TG1_inst1 S t) = xg1 t" "xg2 (TG1_inst1 S t) = xg2 t" "xg3 (TG1_inst1 S t) = xg3 t"
  "wref (TG1_inst1 S t) = wref t" "pout (TG1_inst1 S t) = pout t"
  by (simp_all add: TG1_inst1_def GovernorBase_inst1_def Let_def)

lemma TG1_init1_state:
  assumes i: "TG1_init1 Synchronous self dae = Inr (self', dae', ws)"
    and dx: "distinct (map xg1 self @ map xg2 self @ map xg3 self)"
    and dy: "distinct (map wref self @ map pout self)"
    and t: "t \<in> set self'"
  shows "dae_x dae' (xg1 t) = u t * pm0 t"
    and "dae_x dae' (xg2 t) = u t * k2 t * pm0 t"
    and "dae_x dae' (xg3 t) = u t * k4 t * pm0 t"
    and "dae_y dae' (wref t) = wref0 t"
    and "dae_y dae' (pout t) = pm0 t"
    and "k2 t = 1 - k1 t" and "k4 t = 1 - k3 t"
proof -
  note e = TG1_init1_Inr_D [OF i]
  have sl: "map xg1 self' = map xg1 self" "map xg2 self' = map xg2 self" "map xg3 self' = map xg3 self"
    "map wref self' = map wref self" "map pout self' = map pout self"
    unfolding e(2) by simp_all
  from dx have d1: "distinct (map xg1 self')" and d2: "distinct (map xg2 self')"
    and d3: "distinct (map xg3 self')"
    and n12: "xg1 t \<notin> xg2 ` set self'" and n13: "xg1 t \<notin> xg3 ` set self'"
    and n23: "xg2 t \<notin> xg3 ` set self'"
    using t unfolding sl [symmetric] by (auto simp: image_iff)
  from dy have dw: "distinct (map wref self')" and dp: "distinct (map pout self')"
    and nwp: "wref t \<notin> pout ` set self'"
    using t unfolding sl [symmetric] by (auto simp: image_iff)
  show "dae_x dae' (xg1 t) = u t * pm0 t"
    by (simp add: e(4) assign_notin [OF n13] assign_notin [OF n12] assign_distinct [OF d1 t])
  show "dae_x dae' (xg2 t) = u t * k2 t * pm0 t"
    by (simp add: e(4) assign_notin [OF n23] assign_distinct [OF d2 t])
  show "dae_x dae' (xg3 t) = u t * k4 t * pm0 t"
    by (simp add: e(4) assign_distinct [OF d3 t])
  show "dae_y dae' (wref t) = wref0 t"
    by (simp add: e(3) assign_notin [OF nwp] assign_distinct [OF dw t])
  show "dae_y dae' (pout t) = pm0 t"
    by (simp add: e(3) assign_distinct [OF dp t])
  from t obtain t0 where "t = TG1_inst1 Synchronous t0" unfolding e(2) by auto
  then show "k2 t = 1 - k1 t" and "k4 t = 1 - k3 t"
    by (simp_all add: TG1_inst1_def Let_def)
qed

lemma TG1_init1_residual:
  assumes i: "TG1_init1 Synchronous self dae = Inr (self', dae', ws)"
    and dx: "distinct (map xg1 self @ map xg2 self @ map xg3 self)"
    and dy: "distinct (map wref self @ map pout self)"
    and t: "t \<in> set self'"
  shows "dae_g (snd (TG1_gcall self' dae')) (pout t) = (u t - 1) * pm0 t"
    and "dae_g (snd (TG1_gcall self' dae')) (wref t) = 0"
proof -
  note st = TG1_init1_state [OF i dx dy t]
  have "map wref self' = map wref self" "map pout self' = map pout self"
    unfolding TG1_init1_Inr_D(2) [OF i] by simp_all
  with dy have dy': "distinct (map wref self' @ map pout self')" by simp
  note r = TG1_gcall_rows [OF dy' t]
  show "dae_g (snd (TG1_gcall self' dae')) (pout t) = (u t - 1) * pm0 t"
    unfolding r st by (simp add: algebra_simps)
  show "dae_g (snd (TG1_gcall self' dae')) (wref t) = 0"
    unfolding r st by simp
qed

lemma TG2_init1_Inr_D:
  assumes "TG2_init1 Synchronous self dae = Inr (self', dae', ws)"
  shows "\<forall>t\<in>set self. R t \<noteq> 0 \<and> Synchronous (gen t) \<noteq> None \<and> T2 t \<noteq> 0"
    and "self' = map (TG2_inst1 Synchronous) self"
    and "dae_y dae' = assign (assign (dae_y dae) wref wref0 self') pout pm0 self'"
    and "dae_x dae' = assign (dae_x dae) xg (\<lambda>t. 0) self'"
proof -
  from assms obtain self0 dae0 self1 where
    b: "GovernorBase_init1 Synchronous self dae = Inr (self0, dae0, ws)" and
    s1: "div_into (\<lambda>v t. t\<lparr>T12 := v\<rparr>) T1 T2 self0 = Inr self1" and
    s2: "div_into (\<lambda>v t. t\<lparr>iT2 := v\<rparr>) (\<lambda>t. 1) T2 self1 = Inr self'" and
    d: "dae' = dae0\<lparr>dae_x := assign (dae_x dae0) xg (\<lambda>t. 0) self'\<rparr>"
    unfolding TG2_init1_def
    by (auto simp: bindE_Inr_iff Let_def case_prod_beta)
  note g = GovernorBase_init1_Inr_D [OF b]
  note e1 = div_into_Inr_D [OF s1] and e2 = div_into_Inr_D [OF s2]
  have m: "self0 = map (GovernorBase_inst1 Synchronous) self" by (rule g(2))
  have p: "\<And>t. T1 (GovernorBase_inst1 Synchronous t) = T1 t"
      "\<And>t. T2 (GovernorBase_inst1 Synchronous t) = T2 t"
    by (simp_all add: GovernorBase_inst1_def Let_def)
  show "\<forall>t\<in>set self. R t \<noteq> 0 \<and> Synchronous (gen t) \<noteq> None \<and> T2 t \<noteq> 0"
    using g(1) e1 by (auto simp: m p)
  show s: "self' = map (TG2_inst1 Synchronous) self"
    by (simp add: e1 e2 m p TG2_inst1_def o_def)
  have "dae_y dae' = assign (assign (dae_y dae) wref wref0 self0) pout pm0 self0"
    unfolding d using g(3) by simp
  also have "\<dots> = assign (assign (dae_y dae) wref wref0 self') pout pm0 self'"
    unfolding s m by (simp add: assign_map TG2_inst1_def)
  finally show "dae_y dae' = assign (assign (dae_y dae) wref wref0 self') pout pm0 self'" .
  show "dae_x dae' = assign (dae_x dae) xg (\<lambda>t. 0) self'"
    unfolding d using g(3) by simp
qed

lemma TG2_gcall_snd:
  "snd (TG2_gcall self dae) =
     dae\<lparr>dae_g := assign (assign (assign (dae_g dae) pm
                                (\<lambda>t. dae_g dae (pm t) + (pm0 t - u t * dae_y dae (pout t))) self)
                         wref (\<lambda>t. dae_y dae (wref t) - wref0 t) self)
                  pout (\<lambda>t. algeb_limiter
                               (dae_x dae (xg t) + pm0 t + gain t * T12 t * (wref0 t - dae_x dae (omega t)))
                               (pmin t) (pmax t) - dae_y dae (pout t)) self\<rparr>"
  by (simp add: TG2_gcall_def GovernorBase_gcall_def Let_def assign_map)

lemma TG2_gcall_rows:
  assumes "distinct (map wref self @ map pout self)" and "t \<in> set self"
  shows "dae_g (snd (TG2_gcall self dae)) (pout t) =
           algeb_limiter (dae_x dae (xg t) + pm0 t + gain t * T12 t * (wref0 t - dae_x dae (omega t)))
                         (pmin t) (pmax t) - dae_y dae (pout t)"
    and "dae_g (snd (TG2_gcall self dae)) (wref t) = dae_y dae (wref t) - wref0 t"
proof -
  from assms have dp: "distinct (map pout self)" and dw: "distinct (map wref self)"
    and n: "wref t \<notin> pout ` set self"
    by auto
  show "dae_g (snd (TG2_gcall self dae)) (pout t) =
           algeb_limiter (dae_x dae (xg t) + pm0 t + gain t * T12 t * (wref0 t - dae_x dae (omega t)))
                         (pmin t) (pmax t) - dae_y dae (pout t)"
    by (simp add: TG2_gcall_snd assign_distinct [OF dp assms(2)])
  show "dae_g (snd (TG2_gcall self dae)) (wref t) = dae_y dae (wref t) - wref0 t"
    by (simp add: TG2_gcall_snd assign_notin [OF n] assign_distinct [OF dw assms(2)])
qed

lemma TG2_inst1_slots [simp]:
  "xg (TG2_inst1 S t) = xg t" "wref (TG2_inst1 S t) = wref t" "pout (TG2_inst1 S t) = pout t"
  by (simp_all add: TG2_inst1_def GovernorBase_inst1_def Let_def)

lemma GovernorBase_inst1_pm0_range:
  "pmin t \<le> pmax t \<Longrightarrow>
     pmin t \<le> pm0 (GovernorBase_inst1 S t) \<and> pm0 (GovernorBase_inst1 S t) \<le> pmax t"
  by (simp add: GovernorBase_inst1_def Let_def)

lemma TG2_init1_state:
  assumes i: "TG2_init1 Synchronous self dae = Inr (self', dae', ws)"
    and dx: "distinct (map xg self)"
    and dy: "distinct (map wref self @ map pout self)"
    and t: "t \<in> set self'"
  shows "dae_x dae' (xg t) = 0"
    and "dae_y dae' (wref t) = wref0 t"
    and "dae_y dae' (pout t) = pm0 t"
    and "pmin t \<le> pmax t \<Longrightarrow> pmin t \<le> pm0 t \<and> pm0 t \<le> pmax t"
proof -
  note e = TG2_init1_Inr_D [OF i]
  have sl: "map xg self' = map xg self"
    "map wref self' = map wref self" "map pout self' = map pout self"
    unfolding e(2) by simp_all
  from dx have d1: "distinct (map xg self')" unfolding sl .
  from dy have dw: "distinct (map wref self')" and dp: "distinct (map pout self')"
    and nwp: "wref t \<notin> pout ` set self'"
    using t unfolding sl [symmetric] by (auto simp: image_iff)
  show "dae_x dae' (xg t) = 0"
    by (simp add: e(4) assign_distinct [OF d1 t])
  show "dae_y dae' (wref t) = wref0 t"
    by (simp add: e(3) assign_notin [OF nwp] assign_distinct [OF dw t])
  show "dae_y dae' (pout t) = pm0 t"
    by (simp add: e(3) assign_distinct [OF dp t])
  from t obtain t0 where "t = TG2_inst1 Synchronous t0" unfolding e(2) by auto
  then show "pmin t \<le> pmax t \<Longrightarrow> pmin t \<le> pm0 t \<and> pm0 t \<le> pmax t"
    using GovernorBase_inst1_pm0_range [of t0 Synchronous]
    by (simp add: TG2_inst1_def GovernorBase_inst1_def Let_def)
qed

lemma TG2_init1_residual:
  assumes i: "TG2_init1 Synchronous self dae = Inr (self', dae', ws)"
    and dx: "distinct (map xg self)"
    and dy: "distinct (map wref self @ map pout self)"
    and t: "t \<in> set self'"
  shows "dae_g (snd (TG2_gcall self' dae')) (pout t) =
           algeb_limiter (pm0 t + gain t * T12 t * (wref0 t - dae_x dae' (omega t))) (pmin t) (pmax t)
             - pm0 t"
    and "dae_g (snd (TG2_gcall self' dae')) (wref t) = 0"
proof -
  note st = TG2_init1_state [OF i dx dy t]
  have "map wref self' = map wref self" "map pout self' = map pout self"
    unfolding TG2_init1_Inr_D(2) [OF i] by simp_all
  with dy have dy': "distinct (map wref self' @ map pout self')" by simp
  note r = TG2_gcall_rows [OF dy' t]
  show "dae_g (snd (TG2_gcall self' dae')) (pout t) =
           algeb_limiter (pm0 t + gain t * T12 t * (wref0 t - dae_x dae' (omega t))) (pmin t) (pmax t)
             - pm0 t"
    unfolding r st(1,2,3) by simp
  show "dae_g (snd (TG2_gcall self' dae')) (wref t) = 0"
    unfolding r st(1,2,3) by simp
qed

section \<open>When init1 returns\<close>

lemma GovernorBase_init1_Inr_I:
  assumes "\<forall>t\<in>set self. R t \<noteq> 0 \<and> Synchronous (gen t) \<noteq> None"
  shows "\<exists>self' dae' ws. GovernorBase_init1 Synchronous self dae = Inr (self', dae', ws)"
  using assms
  by (simp add: GovernorBase_init1_def div_into_Inr_I copy_param_Inr_I bindE_def Let_def case_prod_beta)

lemma TG1_init1_Inr_I:
  assumes "\<forall>t\<in>set self. R t \<noteq> 0 \<and> Synchronous (gen t) \<noteq> None \<and> Ts t \<noteq> 0 \<and> Tc t \<noteq> 0 \<and> T5 t \<noteq> 0"
  shows "\<exists>self' dae' ws. TG1_init1 Synchronous self dae = Inr (self', dae', ws)"
proof -
  from assms obtain self0 dae0 ws where
    b: "GovernorBase_init1 Synchronous self dae = Inr (self0, dae0, ws)"
    using GovernorBase_init1_Inr_I [of self Synchronous dae] by auto
  have m: "self0 = map (GovernorBase_inst1 Synchronous) self"
    by (rule GovernorBase_init1_Inr_D(2) [OF b])
  have p: "\<And>t. Ts (GovernorBase_inst1 Synchronous t) = Ts t"
      "\<And>t. Tc (GovernorBase_inst1 Synchronous t) = Tc t"
      "\<And>t. T5 (GovernorBase_inst1 Synchronous t) = T5 t"
    by (simp_all add: GovernorBase_inst1_def Let_def)
  show ?thesis
    using assms
    by (simp add: TG1_init1_def b m p div_into_Inr_I bindE_def Let_def)
qed

lemma TG2_init1_Inr_I:
  assumes "\<forall>t\<in>set self. R t \<noteq> 0 \<and> Synchronous (gen t) \<noteq> None \<and> T2 t \<noteq> 0"
  shows "\<exists>self' dae' ws. TG2_init1 Synchronous self dae = Inr (self', dae', ws)"
proof -
  from assms obtain self0 dae0 ws where
    b: "GovernorBase_init1 Synchronous self dae = Inr (self0, dae0, ws)"
    using GovernorBase_init1_Inr_I [of self Synchronous dae] by auto
  have m: "self0 = map (GovernorBase_inst1 Synchronous) self"
    by (rule GovernorBase_init1_Inr_D(2) [OF b])
  have p: "\<And>t. T2 (GovernorBase_inst1 Synchronous t) = T2 t"
    by (simp_all add: GovernorBase_inst1_def Let_def)
  show ?thesis
    using assms
    by (simp add: TG2_init1_def b m p div_into_Inr_I bindE_def Let_def)
qed

section \<open>Scenario A\<close>

text \<open>
  Claim C3. A TG1 instance with \<open>R = 0.05\<close>, \<open>Ts = 0.1\<close>, \<open>Tc = 0.56\<close>, \<open>T3 = 0\<close>,
  \<open>T4 = 12\<close>, \<open>T5 = 50\<close> and \<open>u = 1\<close>, on a generator with \<open>pm0 = 1.0\<close> inside
  \<open>[pmin, pmax]\<close>: \<open>init1\<close> returns, and after it \<open>xg1 = 1.0\<close>, \<open>xg2 = 1.0\<close>, \<open>xg3 = 0.76\<close>
  and the residual that \<open>gcall\<close> stores in the row of \<open>pout\<close> is \<open>0\<close>. The instance may stand
  anywhere in a vector of instances whose divisors are not zero, whose generators exist and
  whose slots are distinct.
\<close>

theorem TG1_scenario_A:
  assumes ok: "\<forall>t'\<in>set self. R t' \<noteq> 0 \<and> Synchronous (gen t') \<noteq> None \<and> Ts t' \<noteq> 0 \<and> Tc t' \<noteq> 0 \<and> T5 t' \<noteq> 0"
    and dx: "distinct (map xg1 self @ map xg2 self @ map xg3 self)"
    and dy: "distinct (map wref self @ map pout self)"
    and t: "t \<in> set self"
    and p: "u t = 1" "R t = 0.05" "Ts t = 0.1" "Tc t = 0.56" "T3 t = 0" "T4 t = 12" "T5 t = 50"
    and lim: "pmin t \<le> 1" "1 \<le> pmax t"
    and s: "Synchronous (gen t) = Some s" "syn_pm0 s = 1.0"
  shows "\<exists>self' dae' ws. TG1_init1 Synchronous self dae = Inr (self', dae', ws) \<and>
           dae_x dae' (xg1 t) = 1.0 \<and> dae_x dae' (xg2 t) = 1.0 \<and> dae_x dae' (xg3 t) = 0.76 \<and>
           dae_g (snd (TG1_gcall self' dae')) (pout t) = 0"
proof -
  from TG1_init1_Inr_I [OF ok] obtain self' dae' ws where
    i: "TG1_init1 Synchronous self dae = Inr (self', dae', ws)" by blast
  define t' where "t' = TG1_inst1 Synchronous t"
  have t': "t' \<in> set self'"
    unfolding t'_def TG1_init1_Inr_D(2) [OF i] using t by simp
  have f: "u t' = 1" "pm0 t' = 1" "k2 t' = 1" "k4 t' = 0.76"
    "xg1 t' = xg1 t" "xg2 t' = xg2 t" "xg3 t' = xg3 t" "pout t' = pout t"
    unfolding t'_def using p lim s
    by (simp_all add: TG1_inst1_def GovernorBase_inst1_def Let_def)
  note st = TG1_init1_state [OF i dx dy t'] and r = TG1_init1_residual [OF i dx dy t']
  have "dae_x dae' (xg1 t) = 1.0" using st(1) by (simp add: f)
  moreover have "dae_x dae' (xg2 t) = 1.0" using st(2) by (simp add: f)
  moreover have "dae_x dae' (xg3 t) = 0.76" using st(3) by (simp add: f)
  moreover have "dae_g (snd (TG1_gcall self' dae')) (pout t) = 0" using r(1) by (simp add: f)
  ultimately show ?thesis using i by blast
qed

theorem TG1_scenario_A_witness:
  "\<exists>self' dae' ws. TG1_init1 generator_A [scenario_A] dae_start = Inr (self', dae', ws) \<and>
      dae_x dae' 1 = 1 \<and> dae_x dae' 2 = 1 \<and> dae_x dae' 3 = 0.76 \<and>
      dae_g (snd (TG1_gcall self' dae')) 1 = 0"
  using TG1_scenario_A [of "[scenario_A]" generator_A scenario_A
      "\<lparr>syn_Sn = 100, syn_pm0 = 1.0, syn_omega = 0, syn_pm = 2\<rparr>" dae_start]
  by (simp add: scenario_A_def generator_A_def)

section \<open>Initialisation and the algebraic residuals\<close>

lemma TG1_init1_single:
  assumes "R t \<noteq> 0" "Synchronous (gen t) \<noteq> None" "Ts t \<noteq> 0" "Tc t \<noteq> 0" "T5 t \<noteq> 0"
  shows "\<exists>dae' ws. TG1_init1 Synchronous [t] dae = Inr ([TG1_inst1 Synchronous t], dae', ws)"
proof -
  from assms obtain self' dae' ws where i: "TG1_init1 Synchronous [t] dae = Inr (self', dae', ws)"
    using TG1_init1_Inr_I [of "[t]" Synchronous dae] by auto
  from TG1_init1_Inr_D(2) [OF i] show ?thesis using i by simp
qed

lemma TG2_init1_single:
  assumes "R t \<noteq> 0" "Synchronous (gen t) \<noteq> None" "T2 t \<noteq> 0"
  shows "\<exists>dae' ws. TG2_init1 Synchronous [t] dae = Inr ([TG2_inst1 Synchronous t], dae', ws)"
proof -
  from assms obtain self' dae' ws where i: "TG2_init1 Synchronous [t] dae = Inr (self', dae', ws)"
    using TG2_init1_Inr_I [of "[t]" Synchronous dae] by auto
  from TG2_init1_Inr_D(2) [OF i] show ?thesis using i by simp
qed

lemma TG1_init1_wref_residual:
  assumes i: "TG1_init1 Synchronous self dae = Inr (self', dae', ws)"
    and dy: "distinct (map wref self @ map pout self)"
    and t: "t \<in> set self'"
  shows "dae_g (snd (TG1_gcall self' dae')) (wref t) = 0"
proof -
  note e = TG1_init1_Inr_D [OF i]
  have sl: "map wref self' = map wref self" "map pout self' = map pout self"
    unfolding e(2) by simp_all
  with dy have dy': "distinct (map wref self' @ map pout self')" by simp
  then have dw: "distinct (map wref self')" and nwp: "wref t \<notin> pout ` set self'"
    using t by (auto simp: image_iff)
  have "dae_y dae' (wref t) = wref0 t"
    by (simp add: e(3) assign_notin [OF nwp] assign_distinct [OF dw t])
  then show ?thesis
    by (simp add: TG1_gcall_rows(2) [OF dy' t])
qed

lemma TG2_init1_rows:
  assumes i: "TG2_init1 Synchronous self dae = Inr (self', dae', ws)"
    and dy: "distinct (map wref self @ map pout self)"
    and t: "t \<in> set self'"
  shows "dae_g (snd (TG2_gcall self' dae')) (wref t) = 0"
    and "dae_g (snd (TG2_gcall self' dae')) (pout t) =
           algeb_limiter (pm0 t + gain t * T12 t * (wref0 t - dae_x dae' (omega t))) (pmin t) (pmax t)
             - pm0 t"
proof -
  note e = TG2_init1_Inr_D [OF i]
  have sl: "map wref self' = map wref self" "map pout self' = map pout self"
    unfolding e(2) by simp_all
  with dy have dy': "distinct (map wref self' @ map pout self')" by simp
  then have dw: "distinct (map wref self')" and dp: "distinct (map pout self')"
    and nwp: "wref t \<notin> pout ` set self'"
    using t by (auto simp: image_iff)
  have w: "dae_y dae' (wref t) = wref0 t"
    by (simp add: e(3) assign_notin [OF nwp] assign_distinct [OF dw t])
  have p: "dae_y dae' (pout t) = pm0 t"
    by (simp add: e(3) assign_distinct [OF dp t])
  have x: "dae_x dae' (xg t) = 0"
    unfolding e(4) by (rule assign_same [OF t]) simp
  show "dae_g (snd (TG2_gcall self' dae')) (wref t) = 0"
    by (simp add: TG2_gcall_rows(2) [OF dy' t] w)
  show "dae_g (snd (TG2_gcall self' dae')) (pout t) =
           algeb_limiter (pm0 t + gain t * T12 t * (wref0 t - dae_x dae' (omega t))) (pmin t) (pmax t)
             - pm0 t"
    by (simp add: TG2_gcall_rows(1) [OF dy' t] p x)
qed

text \<open>
  Claim C1, as amended. After a successful \<open>init1\<close>, \<open>gcall\<close> at the initialised state stores
  \<open>0\<close> in the row of \<open>wref\<close> of every governor instance, TG1 or TG2: the row gets
  \<^verbatim>\<open>dae.y[wref] - wref0\<close>, and \<open>init1\<close> stored \<open>wref0\<close> in \<^verbatim>\<open>dae.y[wref]\<close>. It stores \<open>0\<close> in
  the row of \<open>pout\<close> of a TG2 instance whose power \<open>pm0\<close> lies within \<open>[pmin, pmax]\<close> after
  \<open>init1\<close> and whose generator runs at the reference speed \<open>wref0\<close> in the initialised state:
  the row gets the limited \<open>0 + pm0 + gain * T12 * 0\<close> minus \<open>pm0\<close>. No operation in these
  rows rounds, so the zero is the same in double precision. Nothing is stated of the row of
  \<open>pout\<close> of a TG1 instance: in service it gets
  \<open>k4 * pm0 + k3 * (k2 * pm0 + k1 * pm0) - pm0\<close>, which is zero over the reals and, in double
  precision, zero only up to the rounding of the products. The slots \<open>wref\<close> and \<open>pout\<close> of
  the instances are distinct.
\<close>

theorem governor_init1_residual:
  "(TG1_init1 Synchronous self1 d1 = Inr (self1', d1', ws1) \<longrightarrow>
      distinct (map wref self1 @ map pout self1) \<longrightarrow> t1 \<in> set self1' \<longrightarrow>
        dae_g (snd (TG1_gcall self1' d1')) (wref t1) = 0)
   \<and> (TG2_init1 Synchronous self2 d2 = Inr (self2', d2', ws2) \<longrightarrow>
      distinct (map wref self2 @ map pout self2) \<longrightarrow> t2 \<in> set self2' \<longrightarrow>
        dae_g (snd (TG2_gcall self2' d2')) (wref t2) = 0 \<and>
        (pmin t2 \<le> pm0 t2 \<longrightarrow> pm0 t2 \<le> pmax t2 \<longrightarrow> dae_x d2' (omega t2) = wref0 t2 \<longrightarrow>
           dae_g (snd (TG2_gcall self2' d2')) (pout t2) = 0))"
proof (intro conjI impI)
  assume i: "TG1_init1 Synchronous self1 d1 = Inr (self1', d1', ws1)"
    and dy: "distinct (map wref self1 @ map pout self1)" and t: "t1 \<in> set self1'"
  show "dae_g (snd (TG1_gcall self1' d1')) (wref t1) = 0"
    by (rule TG1_init1_wref_residual [OF i dy t])
next
  assume i: "TG2_init1 Synchronous self2 d2 = Inr (self2', d2', ws2)"
    and dy: "distinct (map wref self2 @ map pout self2)" and t: "t2 \<in> set self2'"
  note r = TG2_init1_rows [OF i dy t]
  show "dae_g (snd (TG2_gcall self2' d2')) (wref t2) = 0" by (rule r(1))
  assume "pmin t2 \<le> pm0 t2" and "pm0 t2 \<le> pmax t2" and "dae_x d2' (omega t2) = wref0 t2"
  then show "dae_g (snd (TG2_gcall self2' d2')) (pout t2) = 0"
    using r(2) by (simp add: algeb_limiter_def)
qed

theorem governor_init1_residual_witness:
  "\<not> isl (TG1_init1 generator_A [scenario_A] dae_start) \<and>
   dae_g (snd (TG1_gcall (fst (projr (TG1_init1 generator_A [scenario_A] dae_start)))
                         (fst (snd (projr (TG1_init1 generator_A [scenario_A] dae_start)))))) 0 = 0 \<and>
   \<not> isl (TG2_init1 generator_A [simple_B] dae_start) \<and>
   dae_g (snd (TG2_gcall (fst (projr (TG2_init1 generator_A [simple_B] dae_start)))
                         (fst (snd (projr (TG2_init1 generator_A [simple_B] dae_start)))))) 0 = 0 \<and>
   dae_g (snd (TG2_gcall (fst (projr (TG2_init1 generator_A [simple_B] dae_start)))
                         (fst (snd (projr (TG2_init1 generator_A [simple_B] dae_start)))))) 1 = 0"
proof -
  obtain d1' ws1 where
    i: "TG1_init1 generator_A [scenario_A] dae_start = Inr ([TG1_inst1 generator_A scenario_A], d1', ws1)"
    using TG1_init1_single [of scenario_A generator_A dae_start]
    by (auto simp: scenario_A_def generator_A_def)
  obtain d2' ws2 where
    j: "TG2_init1 generator_A [simple_B] dae_start = Inr ([TG2_inst1 generator_A simple_B], d2', ws2)"
    using TG2_init1_single [of simple_B generator_A dae_start]
    by (auto simp: simple_B_def generator_A_def)
  have x: "dae_x d2' 0 = 1"
    using TG2_init1_Inr_D(4) [OF j] by (simp add: assign_def simple_B_def dae_start_def)
  have f: "wref (TG1_inst1 generator_A scenario_A) = 0"
    "wref (TG2_inst1 generator_A simple_B) = 0" "pout (TG2_inst1 generator_A simple_B) = 1"
    "omega (TG2_inst1 generator_A simple_B) = 0" "wref0 (TG2_inst1 generator_A simple_B) = 1"
    "pmin (TG2_inst1 generator_A simple_B) = 0" "pmax (TG2_inst1 generator_A simple_B) = 1"
    "pm0 (TG2_inst1 generator_A simple_B) = 1"
    by (simp_all add: TG1_inst1_def TG2_inst1_def GovernorBase_inst1_def Let_def scenario_A_def
        simple_B_def generator_A_def)
  have sl: "distinct (map wref [scenario_A] @ map pout [scenario_A])"
    "distinct (map wref [simple_B] @ map pout [simple_B])"
    by (simp_all add: scenario_A_def simple_B_def)
  have c: "wref scenario_A = 0" "pout scenario_A = 1" "wref simple_B = 0" "pout simple_B = 1"
    by (simp_all add: scenario_A_def simple_B_def)
  from governor_init1_residual [where Synchronous = generator_A and ?self1.0 = "[scenario_A]"
      and ?d1.0 = dae_start and self1' = "[TG1_inst1 generator_A scenario_A]" and d1' = d1'
      and ?ws1.0 = ws1 and ?t1.0 = "TG1_inst1 generator_A scenario_A"
      and ?self2.0 = "[simple_B]" and ?d2.0 = dae_start
      and self2' = "[TG2_inst1 generator_A simple_B]" and d2' = d2' and ?ws2.0 = ws2
      and ?t2.0 = "TG2_inst1 generator_A simple_B"]
  show ?thesis
    using i j sl x by (simp add: f c)
qed

text \<open>
  The claim as stated fails: a TG1 instance out of service (\<open>u = 0\<close>) is left with the
  residual \<open>- pm0\<close> in its row of \<open>pout\<close>, and a TG2 instance whose generator runs at 0.99
  of the reference speed with \<open>gain * T12 * 0.01\<close>.
\<close>

theorem governor_init1_residual_counterexample:
  "\<not> isl (TG1_init1 generator_A [offline_A] dae_start) \<and>
   dae_g (snd (TG1_gcall (fst (projr (TG1_init1 generator_A [offline_A] dae_start)))
                         (fst (snd (projr (TG1_init1 generator_A [offline_A] dae_start))))))
         (pout offline_A) = - 1 \<and>
   \<not> isl (TG2_init1 generator_half [simple_B] dae_slow) \<and>
   dae_g (snd (TG2_gcall (fst (projr (TG2_init1 generator_half [simple_B] dae_slow)))
                         (fst (snd (projr (TG2_init1 generator_half [simple_B] dae_slow))))))
         (pout simple_B) = 0.004"
proof -
  obtain d1' ws1 where
    i: "TG1_init1 generator_A [offline_A] dae_start = Inr ([TG1_inst1 generator_A offline_A], d1', ws1)"
    using TG1_init1_single [of offline_A generator_A dae_start]
    by (auto simp: offline_A_def scenario_A_def generator_A_def)
  obtain d2' ws2 where
    j: "TG2_init1 generator_half [simple_B] dae_slow = Inr ([TG2_inst1 generator_half simple_B], d2', ws2)"
    using TG2_init1_single [of simple_B generator_half dae_slow]
    by (auto simp: simple_B_def generator_half_def)
  have x2: "dae_x d2' 0 = 0.99"
    using TG2_init1_Inr_D(4) [OF j] by (simp add: assign_def simple_B_def dae_slow_def)
  have r1: "dae_g (snd (TG1_gcall [TG1_inst1 generator_A offline_A] d1')) (pout offline_A) = - 1"
    using TG1_init1_residual(1) [OF i, of "TG1_inst1 generator_A offline_A"]
    by (simp add: offline_A_def scenario_A_def generator_A_def TG1_inst1_def GovernorBase_inst1_def Let_def)
  have r2: "dae_g (snd (TG2_gcall [TG2_inst1 generator_half simple_B] d2')) (pout simple_B) = 0.004"
    using TG2_init1_residual(1) [OF j, of "TG2_inst1 generator_half simple_B"] x2
    by (simp add: simple_B_def generator_half_def TG2_inst1_def GovernorBase_inst1_def Let_def
        algeb_limiter_def)
  show ?thesis by (simp add: i j r1 r2)
qed

section \<open>Contributions to a shared row\<close>

lemma truncate_fields [simp]:
  "pm (governor.truncate t) = pm t" "pm0 (governor.truncate t) = pm0 t"
  "u (governor.truncate t) = u t" "pout (governor.truncate t) = pout t"
  "wref (governor.truncate t) = wref t"
  by (simp_all add: governor.truncate_def)





lemma gcall_dae_y [simp]: "dae_y (snd (gcall A dae)) = dae_y dae"
  by (cases A) (simp_all add: case_prod_beta TG1_gcall_snd TG2_gcall_snd)

lemma gcall_dae_x [simp]: "dae_x (snd (gcall A dae)) = dae_x dae"
  by (cases A) (simp_all add: case_prod_beta TG1_gcall_snd TG2_gcall_snd)





section \<open>Range violations at initialisation\<close>

lemma limit_check_warning:
  "RangeViolation key i \<in> set (snd (limit_check key val put lower upper xs)) \<longleftrightarrow>
     i < length xs \<and> (val (xs ! i) > upper (xs ! i) \<or> val (xs ! i) < lower (xs ! i))"
  by (auto simp: limit_check_def in_set_enumerate_eq split: if_splits)

lemma GovernorBase_init1_ws:
  assumes "GovernorBase_init1 Synchronous self dae = Inr (self', dae', ws)"
  shows "RangeViolation ''pm0'' i \<in> set ws \<longleftrightarrow>
     i < length self \<and> (syn_pm0 (the (Synchronous (gen (self ! i)))) > pmax (self ! i)
                        \<or> syn_pm0 (the (Synchronous (gen (self ! i)))) < pmin (self ! i))"
proof -
  from assms obtain self1 self2 self3 self4 self5 where
    s1: "div_into (\<lambda>v t. t\<lparr>gain := v\<rparr>) (\<lambda>t. 1.0) R self = Inr self1" and
    s2: "copy_param Synchronous syn_Sn (\<lambda>v t. t\<lparr>Sn := v\<rparr>) gen self1 = Inr self2" and
    s3: "copy_param Synchronous syn_pm0 (\<lambda>v t. t\<lparr>pm0 := v\<rparr>) gen self2 = Inr self3" and
    s4: "copy_param Synchronous syn_omega (\<lambda>v t. t\<lparr>omega := v\<rparr>) gen self3 = Inr self4" and
    s5: "copy_param Synchronous syn_pm (\<lambda>v t. t\<lparr>pm := v\<rparr>) gen self4 = Inr self5" and
    w: "ws = snd (limit_check ''pm0'' pm0 (\<lambda>v t. t\<lparr>pm0 := v\<rparr>) pmin pmax self5)"
    unfolding GovernorBase_init1_def bindE_Inr_iff
    by (auto simp: Let_def case_prod_beta)
  note e1 = div_into_Inr_D [OF s1] and e2 = copy_param_Inr_D [OF s2]
    and e3 = copy_param_Inr_D [OF s3] and e4 = copy_param_Inr_D [OF s4]
    and e5 = copy_param_Inr_D [OF s5]
  show ?thesis
    unfolding w limit_check_warning
    by (auto simp: e1 e2 e3 e4 e5)
qed

lemma TG2_init1_ws:
  assumes "TG2_init1 Synchronous self dae = Inr (self', dae', ws)"
  shows "RangeViolation ''pm0'' i \<in> set ws \<longleftrightarrow>
     i < length self \<and> (syn_pm0 (the (Synchronous (gen (self ! i)))) > pmax (self ! i)
                        \<or> syn_pm0 (the (Synchronous (gen (self ! i)))) < pmin (self ! i))"
proof -
  from assms obtain self0 dae0 where
    b: "GovernorBase_init1 Synchronous self dae = Inr (self0, dae0, ws)"
    unfolding TG2_init1_def
    by (auto simp: bindE_Inr_iff Let_def case_prod_beta)
  show ?thesis by (rule GovernorBase_init1_ws [OF b])
qed

text \<open>
  Claim C5. A TG2 instance with \<open>pmin = 0.0\<close> and \<open>pmax = 1.0\<close> on a generator with
  \<open>pm0 = 1.05\<close>: \<open>init1\<close> returns (no fatal error, when the divisors of the vector are not
  zero and its generators exist), the \<open>pm0\<close> of the instance is \<open>1.0\<close> after it, and the
  warnings hold a range violation of \<open>pm0\<close> for the position of the instance.
\<close>

theorem TG2_scenario_B:
  assumes ok: "\<forall>t'\<in>set self. R t' \<noteq> 0 \<and> Synchronous (gen t') \<noteq> None \<and> T2 t' \<noteq> 0"
    and i: "i < length self"
    and p: "pmin (self ! i) = 0.0" "pmax (self ! i) = 1.0"
    and s: "Synchronous (gen (self ! i)) = Some s" "syn_pm0 s = 1.05"
  shows "\<exists>self' dae' ws. TG2_init1 Synchronous self dae = Inr (self', dae', ws) \<and>
           length self' = length self \<and> pm0 (self' ! i) = 1.0 \<and>
           RangeViolation ''pm0'' i \<in> set ws"
proof -
  from TG2_init1_Inr_I [OF ok] obtain self' dae' ws where
    j: "TG2_init1 Synchronous self dae = Inr (self', dae', ws)" by blast
  have m: "self' = map (TG2_inst1 Synchronous) self" by (rule TG2_init1_Inr_D(2) [OF j])
  have "pm0 (self' ! i) = 1.0"
    using i p s by (simp add: m TG2_inst1_def GovernorBase_inst1_def Let_def)
  moreover have "RangeViolation ''pm0'' i \<in> set ws"
    unfolding TG2_init1_ws [OF j] using i p s by simp
  moreover have "length self' = length self" by (simp add: m)
  ultimately show ?thesis using j by blast
qed

theorem TG2_scenario_B_witness:
  "\<exists>self' dae' ws. TG2_init1 generator_B [simple_B] dae_start = Inr (self', dae', ws) \<and>
      length self' = 1 \<and> pm0 (self' ! 0) = 1 \<and> RangeViolation ''pm0'' 0 \<in> set ws"
  using TG2_scenario_B [of "[simple_B]" generator_B 0
      "\<lparr>syn_Sn = 100, syn_pm0 = 1.05, syn_omega = 0, syn_pm = 2\<rparr>" dae_start]
  by (simp add: simple_B_def generator_B_def)

section \<open>A droop of zero\<close>

lemma div_into_zero:
  "t \<in> set self \<Longrightarrow> den t = 0 \<Longrightarrow> div_into dest nm den self = Inl ZeroDivision"
  unfolding div_into_def by (induction self) (auto split: sum.splits)

lemma GovernorBase_init1_zero_droop:
  "t \<in> set self \<Longrightarrow> R t = 0 \<Longrightarrow> GovernorBase_init1 Synchronous self dae = Inl ZeroDivision"
  by (simp add: GovernorBase_init1_def div_into_zero bindE_def)

text \<open>
  Claim C4, as amended. An instance added with a droop \<open>R = 0\<close> (and its mandatory
  parameters named) raises no setup error: \<open>add\<close> returns the instance, with \<open>R = 0\<close>. The
  zero is met in \<open>init1\<close>, whose first statement divides by \<open>R\<close>: \<open>init1\<close> of a vector that
  holds such an instance ends there, with no value written.
\<close>

theorem zero_droop_reaches_init1:
  "(kwargs ''R'' = Some (Num 0) \<longrightarrow> kwargs ''gen'' \<noteq> None \<longrightarrow>
      (kwargs ''T2'' \<noteq> None \<longrightarrow>
         (\<exists>t. TG2_add kwargs w p x = Inr t \<and> R t = 0)) \<and>
      (kwargs ''T5'' \<noteq> None \<longrightarrow> kwargs ''Tc'' \<noteq> None \<longrightarrow> kwargs ''Ts'' \<noteq> None \<longrightarrow>
         (\<exists>t. TG1_add kwargs w p x x2 x3 = Inr t \<and> R t = 0)))
   \<and> (t2 \<in> set self2 \<longrightarrow> R t2 = 0 \<longrightarrow> TG2_init1 Synchronous self2 dae = Inl ZeroDivision)
   \<and> (t1 \<in> set self1 \<longrightarrow> R t1 = 0 \<longrightarrow> TG1_init1 Synchronous self1 dae = Inl ZeroDivision)"
  by (auto simp: TG2_add_def TG1_add_def TG1_mandatory_def TG2_mandatory_def
      GovernorBase_mandatory_def num_of_def bindE_def TG1_init1_def TG2_init1_def
      GovernorBase_init1_zero_droop)

theorem zero_droop_reaches_init1_witness:
  "TG2_add zero_droop 0 1 1 = Inr (simple_B\<lparr>R := 0\<rparr>) \<and>
   TG1_add zero_droop 0 1 1 2 3 = Inr (scenario_A\<lparr>R := 0\<rparr>) \<and>
   TG2_init1 generator_A [simple_B\<lparr>R := 0\<rparr>] dae_start = Inl ZeroDivision \<and>
   TG1_init1 generator_A [scenario_A\<lparr>R := 0\<rparr>] dae_start = Inl ZeroDivision"
  using zero_droop_reaches_init1 [of zero_droop 0 1 1 2 3 "simple_B\<lparr>R := 0\<rparr>" "[simple_B\<lparr>R := 0\<rparr>]"
      generator_A dae_start "scenario_A\<lparr>R := 0\<rparr>" "[scenario_A\<lparr>R := 0\<rparr>]"]
  by (simp add: zero_droop_def TG2_add_def TG1_add_def TG1_mandatory_def TG2_mandatory_def
      GovernorBase_mandatory_def num_of_def idx_of_def bindE_def simple_B_def scenario_A_def)

text \<open>
  The claim as stated fails: adding a TG2 instance with \<open>R = 0\<close> raises no error before
  \<open>init1\<close>; the instance is created, and \<open>init1\<close> is where the division fails.
\<close>

theorem zero_droop_counterexample:
  "\<not> isl (TG2_add zero_droop 0 1 1) \<and> R (projr (TG2_add zero_droop 0 1 1)) = 0 \<and>
   TG2_init1 generator_A [projr (TG2_add zero_droop 0 1 1)] dae_start = Inl ZeroDivision"
  by (simp add: zero_droop_def TG2_add_def TG2_mandatory_def GovernorBase_mandatory_def
      num_of_def idx_of_def bindE_def TG2_init1_def GovernorBase_init1_def div_into_def)

section \<open>The constant Jacobian entries of TG2\<close>

lemma algeb_limiter_within:
  assumes d: "(h has_real_derivative D) (at s0)" and l: "lower < h s0" and up: "h s0 < upper"
  shows "((\<lambda>s. algeb_limiter (h s) lower upper) has_real_derivative D) (at s0)"
proof -
  have "isCont h s0" using d by (rule DERIV_isCont)
  then have t: "(h \<longlongrightarrow> h s0) (nhds s0)"
    by (simp add: isCont_def tendsto_at_iff_tendsto_nhds)
  have "eventually (\<lambda>s. lower < h s) (nhds s0)" by (rule order_tendstoD(1) [OF t l])
  moreover have "eventually (\<lambda>s. h s < upper) (nhds s0)" by (rule order_tendstoD(2) [OF t up])
  ultimately have "eventually (\<lambda>s. algeb_limiter (h s) lower upper = h s) (nhds s0)"
    by eventually_elim (simp add: algeb_limiter_def)
  then have "DERIV (\<lambda>s. algeb_limiter (h s) lower upper) s0 :> D \<longleftrightarrow> DERIV h s0 :> D"
    by (intro DERIV_cong_ev) simp_all
  with d show ?thesis by simp
qed

lemma TG2_fcall_row:
  assumes "distinct (map xg self)" and "t \<in> set self"
  shows "dae_f (TG2_fcall self dae) (xg t) =
     iT2 t * (gain t * (1 - T12 t) * (wref0 t - dae_x dae (omega t)) - dae_x dae (xg t))"
  by (simp add: TG2_fcall_def assign_distinct [OF assms])

lemma TG2_gcall_pout_row:
  assumes "distinct (map pout self)" and "t \<in> set self"
  shows "dae_g (snd (TG2_gcall self dae)) (pout t) =
     algeb_limiter (dae_x dae (xg t) + pm0 t + gain t * T12 t * (wref0 t - dae_x dae (omega t)))
                   (pmin t) (pmax t) - dae_y dae (pout t)"
  by (simp add: TG2_gcall_snd assign_distinct [OF assms])

lemma TG2_gcall_wref_row:
  assumes "distinct (map wref self)" and "t \<in> set self" and "wref t \<notin> pout ` set self"
  shows "dae_g (snd (TG2_gcall self dae)) (wref t) = dae_y dae (wref t) - wref0 t"
  by (simp add: TG2_gcall_snd assign_notin [OF assms(3)] assign_distinct [OF assms(1,2)])

lemma TG2_gcall_pm_row:
  assumes "distinct (map pm self)" and "t \<in> set self"
    and "pm t \<notin> pout ` set self" and "pm t \<notin> wref ` set self"
  shows "dae_g (snd (TG2_gcall self dae)) (pm t) =
     dae_g dae (pm t) + (pm0 t - u t * dae_y dae (pout t))"
  by (simp add: TG2_gcall_snd assign_notin [OF assms(3)] assign_notin [OF assms(4)]
      assign_distinct [OF assms(1,2)])

lemma TG2_jac0_entries:
  "dae_jac (TG2_jac0 self dae0) = dae_jac dae0 @
     map (\<lambda>t. (Gy0, - u t, pm t, pout t)) self @
     map (\<lambda>t. (Gy0, 1.0, wref t, wref t)) self @
     map (\<lambda>t. (Fx0, - iT2 t, xg t, xg t)) self @
     map (\<lambda>t. (Fx0, - (iT2 t * gain t * (1 - T12 t)), xg t, omega t)) self @
     map (\<lambda>t. (Gx0, 1.0, pout t, xg t)) self @
     map (\<lambda>t. (Gx0, - (gain t * T12 t), pout t, omega t)) self @
     map (\<lambda>t. (Gy0, - 1.0, pout t, pout t)) self"
  by (simp add: TG2_jac0_def GovernorBase_jac0_def add_jac_def Let_def)

lemma TG2_partials:
  assumes dx: "distinct (map xg self)"
    and dy: "distinct (map wref self @ map pout self)"
    and dp: "distinct (map pm self)"
    and np: "\<forall>t\<in>set self. pm t \<notin> set (map wref self @ map pout self)"
    and xo: "\<forall>t\<in>set self. xg t \<noteq> omega t"
    and lim: "\<forall>t\<in>set self.
        pmin t < dae_x dae (xg t) + pm0 t + gain t * T12 t * (wref0 t - dae_x dae (omega t)) \<and>
        dae_x dae (xg t) + pm0 t + gain t * T12 t * (wref0 t - dae_x dae (omega t)) < pmax t"
    and t: "t \<in> set self"
  shows "TG2_partial self dae (Gy0, - u t, pm t, pout t)"
    and "TG2_partial self dae (Gy0, 1.0, wref t, wref t)"
    and "TG2_partial self dae (Fx0, - iT2 t, xg t, xg t)"
    and "TG2_partial self dae (Fx0, - (iT2 t * gain t * (1 - T12 t)), xg t, omega t)"
    and "TG2_partial self dae (Gx0, 1.0, pout t, xg t)"
    and "TG2_partial self dae (Gx0, - (gain t * T12 t), pout t, omega t)"
    and "TG2_partial self dae (Gy0, - 1.0, pout t, pout t)"
proof -
  from dy have dw: "distinct (map wref self)" and dq: "distinct (map pout self)"
    and nw: "wref t \<notin> pout ` set self"
    using t by auto
  from np t have n1: "pm t \<notin> pout ` set self" and n2: "pm t \<notin> wref ` set self" by auto
  from xo t have x: "xg t \<noteq> omega t" by blast
  from lim t have
    l: "pmin t < dae_x dae (xg t) + pm0 t + gain t * T12 t * (wref0 t - dae_x dae (omega t))" and
    h: "dae_x dae (xg t) + pm0 t + gain t * T12 t * (wref0 t - dae_x dae (omega t)) < pmax t"
    by blast+
  show "TG2_partial self dae (Gy0, - u t, pm t, pout t)"
    unfolding TG2_partial_def
    by (simp add: TG2_gcall_pm_row [OF dp t n1 n2]) (auto intro!: derivative_eq_intros)
  show "TG2_partial self dae (Gy0, 1.0, wref t, wref t)"
    unfolding TG2_partial_def
    by (simp add: TG2_gcall_wref_row [OF dw t nw]) (auto intro!: derivative_eq_intros)
  show "TG2_partial self dae (Fx0, - iT2 t, xg t, xg t)"
    unfolding TG2_partial_def using x
    by (simp add: TG2_fcall_row [OF dx t]) (auto intro!: derivative_eq_intros)
  show "TG2_partial self dae (Fx0, - (iT2 t * gain t * (1 - T12 t)), xg t, omega t)"
    unfolding TG2_partial_def using x
    by (simp add: TG2_fcall_row [OF dx t]) (auto intro!: derivative_eq_intros)
  show "TG2_partial self dae (Gx0, 1.0, pout t, xg t)"
    unfolding TG2_partial_def using x l h
    by (simp add: TG2_gcall_pout_row [OF dq t])
       (auto intro!: derivative_eq_intros algeb_limiter_within)
  show "TG2_partial self dae (Gx0, - (gain t * T12 t), pout t, omega t)"
    unfolding TG2_partial_def using x l h
    by (simp add: TG2_gcall_pout_row [OF dq t])
       (auto intro!: derivative_eq_intros algeb_limiter_within)
  show "TG2_partial self dae (Gy0, - 1.0, pout t, pout t)"
    unfolding TG2_partial_def
    by (simp add: TG2_gcall_pout_row [OF dq t]) (auto intro!: derivative_eq_intros)
qed

text \<open>
  Claim C8. The entries that \<open>TG2.jac0\<close> adds are, for every instance, \<open>- u\<close> at
  \<open>(pm, pout)\<close> and \<open>1.0\<close> at \<open>(wref, wref)\<close> in \<open>Gy0\<close> (from the base class),
  \<open>- iT2\<close> at \<open>(xg, xg)\<close> and \<open>- iT2 * gain * (1 - T12)\<close> at \<open>(xg, omega)\<close> in \<open>Fx0\<close>,
  \<open>1.0\<close> at \<open>(pout, xg)\<close> and \<open>- gain * T12\<close> at \<open>(pout, omega)\<close> in \<open>Gx0\<close>, and \<open>- 1.0\<close> at
  \<open>(pout, pout)\<close> in \<open>Gy0\<close>. Each of them is the partial derivative of the residual of its
  row (of \<open>fcall\<close> for \<open>Fx0\<close>, of \<open>gcall\<close> for \<open>Gx0\<close> and \<open>Gy0\<close>) in the variable of its
  column, at every state in which the power of each instance lies strictly inside its
  limits. The slots of the instances are distinct.
\<close>

theorem TG2_jac0_partial_derivatives:
  assumes dx: "distinct (map xg self)"
    and dy: "distinct (map wref self @ map pout self)"
    and dp: "distinct (map pm self)"
    and np: "\<forall>t\<in>set self. pm t \<notin> set (map wref self @ map pout self)"
    and xo: "\<forall>t\<in>set self. xg t \<noteq> omega t"
    and lim: "\<forall>t\<in>set self.
        pmin t < dae_x dae (xg t) + pm0 t + gain t * T12 t * (wref0 t - dae_x dae (omega t)) \<and>
        dae_x dae (xg t) + pm0 t + gain t * T12 t * (wref0 t - dae_x dae (omega t)) < pmax t"
  shows "\<exists>es. dae_jac (TG2_jac0 self dae0) = dae_jac dae0 @ es \<and>
           length es = 7 * length self \<and>
           (\<forall>t\<in>set self.
              (Fx0, - iT2 t, xg t, xg t) \<in> set es \<and>
              (Fx0, - (iT2 t * gain t * (1 - T12 t)), xg t, omega t) \<in> set es \<and>
              (Gx0, 1.0, pout t, xg t) \<in> set es \<and>
              (Gx0, - (gain t * T12 t), pout t, omega t) \<in> set es \<and>
              (Gy0, - 1.0, pout t, pout t) \<in> set es) \<and>
           (\<forall>e\<in>set es. TG2_partial self dae e)"
proof -
  define es where "es =
     map (\<lambda>t. (Gy0, - u t, pm t, pout t)) self @
     map (\<lambda>t. (Gy0, 1.0, wref t, wref t)) self @
     map (\<lambda>t. (Fx0, - iT2 t, xg t, xg t)) self @
     map (\<lambda>t. (Fx0, - (iT2 t * gain t * (1 - T12 t)), xg t, omega t)) self @
     map (\<lambda>t. (Gx0, 1.0, pout t, xg t)) self @
     map (\<lambda>t. (Gx0, - (gain t * T12 t), pout t, omega t)) self @
     map (\<lambda>t. (Gy0, - 1.0, pout t, pout t)) self"
  have 1: "dae_jac (TG2_jac0 self dae0) = dae_jac dae0 @ es"
    unfolding es_def by (rule TG2_jac0_entries)
  have 2: "length es = 7 * length self" unfolding es_def by simp
  have 3: "\<forall>t\<in>set self.
              (Fx0, - iT2 t, xg t, xg t) \<in> set es \<and>
              (Fx0, - (iT2 t * gain t * (1 - T12 t)), xg t, omega t) \<in> set es \<and>
              (Gx0, 1.0, pout t, xg t) \<in> set es \<and>
              (Gx0, - (gain t * T12 t), pout t, omega t) \<in> set es \<and>
              (Gy0, - 1.0, pout t, pout t) \<in> set es"
    unfolding es_def by (auto simp: image_iff)
  have 4: "\<forall>e\<in>set es. TG2_partial self dae e"
  proof
    fix e assume "e \<in> set es"
    then obtain t where t: "t \<in> set self" and
      "e = (Gy0, - u t, pm t, pout t) \<or> e = (Gy0, 1.0, wref t, wref t) \<or>
       e = (Fx0, - iT2 t, xg t, xg t) \<or>
       e = (Fx0, - (iT2 t * gain t * (1 - T12 t)), xg t, omega t) \<or>
       e = (Gx0, 1.0, pout t, xg t) \<or> e = (Gx0, - (gain t * T12 t), pout t, omega t) \<or>
       e = (Gy0, - 1.0, pout t, pout t)"
      unfolding es_def by auto
    then show "TG2_partial self dae e"
      using TG2_partials [OF dx dy dp np xo lim t] by auto
  qed
  from 1 2 3 4 show ?thesis by blast
qed

theorem TG2_jac0_partial_derivatives_witness:
  "dae_jac (TG2_jac0 [TG2_inst1 generator_half simple_B] dae_start) =
     [(Gy0, - 1, 2, 1), (Gy0, 1, 0, 0), (Fx0, - (1 / 10), 1, 1), (Fx0, - (49 / 25), 1, 0),
      (Gx0, 1, 1, 1), (Gx0, - (2 / 5), 1, 0), (Gy0, - 1, 1, 1)] \<and>
   TG2_partial [TG2_inst1 generator_half simple_B] dae_start (Fx0, - (1 / 10), 1, 1) \<and>
   TG2_partial [TG2_inst1 generator_half simple_B] dae_start (Fx0, - (49 / 25), 1, 0) \<and>
   TG2_partial [TG2_inst1 generator_half simple_B] dae_start (Gx0, 1, 1, 1) \<and>
   TG2_partial [TG2_inst1 generator_half simple_B] dae_start (Gx0, - (2 / 5), 1, 0) \<and>
   TG2_partial [TG2_inst1 generator_half simple_B] dae_start (Gy0, - 1, 1, 1)"
proof -
  let ?b = "TG2_inst1 generator_half simple_B"
  have f: "u ?b = 1" "pm ?b = 2" "pout ?b = 1" "wref ?b = 0" "xg ?b = 1" "omega ?b = 0"
    "iT2 ?b = 1 / 10" "gain ?b = 20" "T12 ?b = 1 / 50" "pm0 ?b = 1 / 2" "pmin ?b = 0" "pmax ?b = 1"
    "wref0 ?b = 1"
    by (simp_all add: TG2_inst1_def GovernorBase_inst1_def Let_def simple_B_def generator_half_def)
  have c: "wref simple_B = 0" "pout simple_B = 1" "xg simple_B = 1"
    by (simp_all add: simple_B_def)
  have h: "distinct (map xg [?b])" "distinct (map wref [?b] @ map pout [?b])"
    "distinct (map pm [?b])"
    "\<forall>t\<in>set [?b]. pm t \<notin> set (map wref [?b] @ map pout [?b])"
    "\<forall>t\<in>set [?b]. xg t \<noteq> omega t"
    "\<forall>t\<in>set [?b].
        pmin t < dae_x dae_start (xg t) + pm0 t + gain t * T12 t * (wref0 t - dae_x dae_start (omega t)) \<and>
        dae_x dae_start (xg t) + pm0 t + gain t * T12 t * (wref0 t - dae_x dae_start (omega t)) < pmax t"
    by (simp_all add: f c dae_start_def)
  from TG2_jac0_partial_derivatives [OF h, of dae_start]
  obtain es where e: "dae_jac (TG2_jac0 [?b] dae_start) = dae_jac dae_start @ es"
    and p: "\<forall>e\<in>set es. TG2_partial [?b] dae_start e"
    by blast
  have "dae_jac (TG2_jac0 [?b] dae_start) =
     [(Gy0, - 1, 2, 1), (Gy0, 1, 0, 0), (Fx0, - (1 / 10), 1, 1), (Fx0, - (49 / 25), 1, 0),
      (Gx0, 1, 1, 1), (Gx0, - (2 / 5), 1, 0), (Gy0, - 1, 1, 1)]"
    by (simp add: TG2_jac0_entries f c dae_start_def)
  with e p show ?thesis by (simp add: dae_start_def)
qed

section \<open>The differential equations\<close>

lemma GovernorBase_gcall_fst:
  "fst (GovernorBase_gcall self dae) =
     map (\<lambda>t. t\<lparr>pin := algeb_limiter (pm0 t + gain t * (wref0 t - dae_x dae (omega t))) (pmin t) (pmax t)\<rparr>) self"
  by (simp add: GovernorBase_gcall_def Let_def)

lemma TG1_gcall_fst: "fst (TG1_gcall self dae) = fst (GovernorBase_gcall self dae)"
  by (simp add: TG1_gcall_def Let_def case_prod_beta)

lemma TG2_gcall_fst: "fst (TG2_gcall self dae) = fst (GovernorBase_gcall self dae)"
  by (simp add: TG2_gcall_def Let_def case_prod_beta)

text \<open>
  \<open>TG2.fcall\<close> is a function of the parameters and of \<^verbatim>\<open>dae.x\<close>: what it stores does not
  depend on the other vectors, and not on a \<open>gcall\<close> that ran before it.
\<close>

lemma TG2_fcall_pure:
  "dae_x d1 = dae_x d2 \<Longrightarrow> dae_f d1 = dae_f d2 \<Longrightarrow>
     dae_f (TG2_fcall self d1) = dae_f (TG2_fcall self d2)"
  by (simp add: TG2_fcall_def)

lemma TG2_fcall_after_gcall:
  "TG2_fcall (fst (TG2_gcall self d0)) d = TG2_fcall self d"
  by (simp add: TG2_fcall_def TG2_gcall_fst GovernorBase_gcall_fst assign_map)

lemma TG2_fcall_own_rows:
  assumes x: "dae_x d1 = dae_x d2" and t: "t \<in> set self"
  shows "dae_f (TG2_fcall self d1) (xg t) = dae_f (TG2_fcall self d2) (xg t)"
proof -
  from assign_own_slot [OF t, of xg
      "\<lambda>t. iT2 t * (gain t * (1 - T12 t) * (wref0 t - dae_x d2 (omega t)) - dae_x d2 (xg t))"]
  show ?thesis
    by (auto simp: TG2_fcall_def x)
qed

text \<open>
  \<^verbatim>\<open>TG1.fcall\<close> ends in the index error of \<^verbatim>\<open>dae.y[self.pin]\<close> whenever it is called, before it
  has stored anything.
\<close>

lemma TG1_fcall_raises: "TG1_fcall self dae = Inl IndexTypeError"
  by (simp add: TG1_fcall_def getitem_doubles_def bindE_def)

text \<open>
  Claim C9. The derivative contributions of a governor model, the values that its \<open>fcall\<close>
  leaves in the rows of its states, are the same at two states of the assembly with the same
  \<^verbatim>\<open>dae.x\<close> and \<^verbatim>\<open>dae.y\<close>, whatever the other vectors hold, and they are the same before and
  after a \<open>gcall\<close> of the model, which stores the service \<open>pin\<close>. For TG2 they are the
  expression of \<^verbatim>\<open>TG2.fcall\<close> in the parameters, the services of \<open>init1\<close> and \<^verbatim>\<open>dae.x\<close>. For
  TG1 the callback delivers no derivative, in every state alike. \<open>fcall\<close> assigns no
  attribute of the instances: it takes them and returns the vectors.
\<close>

theorem governor_fcall_pure:
  "(dae_x d1 = dae_x d2 \<longrightarrow> dae_y d1 = dae_y d2 \<longrightarrow> derivatives A d1 = derivatives A d2)
   \<and> derivatives (fst (gcall A d0)) d = derivatives A d
   \<and> (distinct (map xg self2) \<longrightarrow>
        derivatives (TG2 self2) d =
          Inr (map (\<lambda>t. iT2 t * (gain t * (1 - T12 t) * (wref0 t - dae_x d (omega t)) - dae_x d (xg t)))
                 self2))
   \<and> derivatives (TG1 self1) d = Inl IndexTypeError"
proof (intro conjI impI)
  assume x: "dae_x d1 = dae_x d2" and "dae_y d1 = dae_y d2"
  show "derivatives A d1 = derivatives A d2"
  proof (cases A)
    case (TG1 self)
    then show ?thesis by (simp add: derivatives_def TG1_fcall_raises)
  next
    case (TG2 self)
    then show ?thesis by (simp add: derivatives_def TG2_fcall_own_rows [OF x])
  qed
next
  show "derivatives (fst (gcall A d0)) d = derivatives A d"
  proof (cases A)
    case (TG1 self)
    then show ?thesis by (simp add: derivatives_def TG1_fcall_raises case_prod_beta)
  next
    case (TG2 self)
    have "map xg (fst (TG2_gcall self d0)) = map xg self"
      by (simp add: TG2_gcall_fst GovernorBase_gcall_fst o_def)
    with TG2 show ?thesis
      by (simp add: derivatives_def case_prod_beta TG2_fcall_after_gcall)
  qed
next
  assume "distinct (map xg self2)"
  then show "derivatives (TG2 self2) d =
          Inr (map (\<lambda>t. iT2 t * (gain t * (1 - T12 t) * (wref0 t - dae_x d (omega t)) - dae_x d (xg t)))
                 self2)"
    by (simp add: derivatives_def TG2_fcall_def assign_distinct)
next
  show "derivatives (TG1 self1) d = Inl IndexTypeError"
    by (simp add: derivatives_def TG1_fcall_raises)
qed

theorem governor_fcall_pure_witness:
  "derivatives (TG2 [TG2_inst1 generator_A simple_B]) dae_fast
     = derivatives (TG2 [TG2_inst1 generator_A simple_B])
         (snd (gcall (TG2 [TG2_inst1 generator_A simple_B]) dae_fast)) \<and>
   derivatives (fst (gcall (TG2 [TG2_inst1 generator_A simple_B]) dae_start)) dae_fast
     = derivatives (TG2 [TG2_inst1 generator_A simple_B]) dae_fast \<and>
   derivatives (TG2 [TG2_inst1 generator_A simple_B]) dae_fast = Inr [- 0.0196] \<and>
   derivatives (TG1 [TG1_inst1 generator_A scenario_A]) dae_fast = Inl IndexTypeError"
proof -
  let ?A = "TG2 [TG2_inst1 generator_A simple_B]"
  note p = governor_fcall_pure [of dae_fast "snd (gcall ?A dae_fast)" ?A dae_start dae_fast
      "[TG2_inst1 generator_A simple_B]" "[TG1_inst1 generator_A scenario_A]"]
  have x: "dae_x dae_fast = dae_x (snd (gcall ?A dae_fast))"
    by (rule gcall_dae_x [symmetric])
  have y: "dae_y dae_fast = dae_y (snd (gcall ?A dae_fast))"
    by (rule gcall_dae_y [symmetric])
  from p x y have a: "derivatives ?A dae_fast = derivatives ?A (snd (gcall ?A dae_fast))"
    by blast
  from p have b: "derivatives (fst (gcall ?A dae_start)) dae_fast = derivatives ?A dae_fast"
    and c: "derivatives (TG1 [TG1_inst1 generator_A scenario_A]) dae_fast = Inl IndexTypeError"
    by blast+
  have "distinct (map xg [TG2_inst1 generator_A simple_B])" by simp
  with p have "derivatives ?A dae_fast =
      Inr (map (\<lambda>t. iT2 t * (gain t * (1 - T12 t) * (wref0 t - dae_x dae_fast (omega t))
                                 - dae_x dae_fast (xg t)))
             [TG2_inst1 generator_A simple_B])"
    by blast
  then have d: "derivatives ?A dae_fast = Inr [- 0.0196]"
    by (simp add: TG2_inst1_def GovernorBase_inst1_def Let_def simple_B_def generator_A_def
        dae_fast_def)
  from a b c d show ?thesis by simp
qed

section \<open>The equations of the stabilizer\<close>

lemma set_e_str_append: "set_e_str x e (cs @ ds) = set_e_str x e cs @ set_e_str x e ds"
  by (induction x e cs rule: set_e_str.induct) simp_all

lemma set_e_str_member:
  "Algeb x v e' \<in> set cs \<Longrightarrow> Algeb x v e \<in> set (set_e_str x e cs)"
  by (induction x e cs rule: set_e_str.induct) auto

lemma algebraic_ok_append:
  "algebraic_ok env (cs @ ds) \<longleftrightarrow> algebraic_ok env cs \<and> algebraic_ok env ds"
  by (auto simp: algebraic_ok_def)

lemma algebraic_ok_member:
  "algebraic_ok env cs \<Longrightarrow> c \<in> set cs \<Longrightarrow> list_all (residual_zero env) (equations c) \<and> flags_set env c"
  by (auto simp: algebraic_ok_def list_all_iff)

lemma STAB2A_own_ok:
  assumes "algebraic_ok env (STAB2AModel_init PSSBase)"
  shows "env ''SnSb'' \<noteq> 0" and "env ''sig'' = env ''te'' / env ''SnSb''"
    and "env ''PK2_y'' = env ''K2'' * env ''sig''"
    and "env ''WO_y'' = env ''T2'' * env ''PK2_y'' - env ''WO_x''"
    and "env ''V1'' = env ''WO_y'' ^ 3"
    and "env ''PK4_y'' = env ''K4'' * env ''V1''"
    and "env ''V3'' = env ''PK4_y'' + env ''V2_y''"
    and "env ''V4'' = env ''L1_y'' ^ 2"
    and "(env ''HLIM_zi'', env ''HLIM_zu'', env ''HLIM_zl'')
           = Limiter_check (env ''V4'') (env ''HLIM_MIN'') (env ''HLIM_MAX'')"
  using assms
  by (simp_all add: STAB2AModel_init_def set_e_str_append algebraic_ok_append,
      simp_all add: algebraic_ok_def split: if_splits)

lemma STAB2A_vsout_ok:
  assumes ok: "algebraic_ok env (STAB2AModel_init PSSBase)"
    and vs: "Algeb ''vsout'' v0 e0 \<in> set PSSBase"
  shows "env ''vsout'' = env ''HLIM_zi'' * env ''V4'' + env ''HLIM_zu'' * env ''HLIM_MAX''
                        + env ''HLIM_zl'' * env ''HLIM_MIN''"
proof -
  let ?e = "Minus (Plus (Plus (Times (Sym ''HLIM_zi'') (Sym ''V4''))
                          (Times (Sym ''HLIM_zu'') (Sym ''HLIM_MAX'')))
                    (Times (Sym ''HLIM_zl'') (Sym ''HLIM_MIN'')))
              (Sym ''vsout'')"
  have "Algeb ''vsout'' v0 ?e \<in> set (STAB2AModel_init PSSBase)"
    unfolding STAB2AModel_init_def set_e_str_append
    using set_e_str_member [OF vs] by simp
  from algebraic_ok_member [OF ok this] show ?thesis by simp
qed

lemma STAB2A_differential:
  "Dif ''WO_x'' (Minus (Times (Sym ''T2'') (Sym ''PK2_y'')) (Sym ''WO_x'')) ''T2''
     \<in> set (concat (map equations (STAB2AModel_init PSSBase)))"
  "Dif ''V2_y'' (Minus (Times (Sym ''K3'') (Sym ''V1'')) (Sym ''V2_y'')) ''T3''
     \<in> set (concat (map equations (STAB2AModel_init PSSBase)))"
  "Dif ''L1_y'' (Minus (Times (Sym ''K5'') (Sym ''V3'')) (Sym ''L1_y'')) ''T5''
     \<in> set (concat (map equations (STAB2AModel_init PSSBase)))"
  by (simp_all add: STAB2AModel_init_def set_e_str_append)

lemma feeds_append: "feeds (cs @ ds) a b \<longleftrightarrow> feeds cs a b \<or> feeds ds a b"
  by (simp add: feeds_def)

lemma STAB2A_feeds:
  "feeds (STAB2AModel_init PSSBase) ''te'' ''sig''"
  "feeds (STAB2AModel_init PSSBase) ''sig'' ''PK2_y''"
  "feeds (STAB2AModel_init PSSBase) ''PK2_y'' ''WO_y''"
  "feeds (STAB2AModel_init PSSBase) ''WO_y'' ''V1''"
  "feeds (STAB2AModel_init PSSBase) ''V1'' ''PK4_y''"
  "feeds (STAB2AModel_init PSSBase) ''V1'' ''V2_y''"
  "feeds (STAB2AModel_init PSSBase) ''PK4_y'' ''V3''"
  "feeds (STAB2AModel_init PSSBase) ''V2_y'' ''V3''"
  "feeds (STAB2AModel_init PSSBase) ''V3'' ''L1_y''"
  "feeds (STAB2AModel_init PSSBase) ''L1_y'' ''V4''"
  "feeds (STAB2AModel_init PSSBase) ''V4'' ''HLIM_zi''"
  by (simp_all add: STAB2AModel_init_def set_e_str_append feeds_append, simp_all add: feeds_def)

lemma STAB2A_feeds_vsout:
  assumes vs: "Algeb ''vsout'' v0 e0 \<in> set PSSBase"
  shows "feeds (STAB2AModel_init PSSBase) ''V4'' ''vsout''"
    and "feeds (STAB2AModel_init PSSBase) ''HLIM_zi'' ''vsout''"
proof -
  let ?e = "Minus (Plus (Plus (Times (Sym ''HLIM_zi'') (Sym ''V4''))
                          (Times (Sym ''HLIM_zu'') (Sym ''HLIM_MAX'')))
                    (Times (Sym ''HLIM_zl'') (Sym ''HLIM_MIN'')))
              (Sym ''vsout'')"
  have m: "Algeb ''vsout'' v0 ?e \<in> set (STAB2AModel_init PSSBase)"
    unfolding STAB2AModel_init_def set_e_str_append
    using set_e_str_member [OF vs] by simp
  show "feeds (STAB2AModel_init PSSBase) ''V4'' ''vsout''"
    unfolding feeds_def list_ex_iff by (rule bexI [OF _ m]) simp
  show "feeds (STAB2AModel_init PSSBase) ''HLIM_zi'' ''vsout''"
    unfolding feeds_def list_ex_iff by (rule bexI [OF _ m]) simp
qed

lemma stab2a_state_ok: "algebraic_ok stab2a_state (STAB2AModel_init PSSBase_vsout)"
  by (simp add: STAB2AModel_init_def PSSBase_vsout_def algebraic_ok_def stab2a_state_def
      env_of_def Limiter_check_def power3_eq_cube power2_eq_square)

section \<open>The stabilizer\<close>

text \<open>
  Claim C7. In every valuation that satisfies the algebraic equations of the declared model:
  the input signal is \<open>te / SnSb\<close>; the gain block multiplies it by \<open>K2\<close>; the washout (state
  \<open>WO_x\<close>, time constant \<open>T2\<close>) gives \<open>WO_y\<close>; \<open>V1\<close> is its cube; \<open>V3\<close> is \<open>K4 * V1\<close> plus the
  state \<open>V2_y\<close> of a lag of \<open>V1\<close> with gain \<open>K3\<close> and time constant \<open>T3\<close>; a second lag of
  \<open>V3\<close> with gain \<open>K5\<close> and time constant \<open>T5\<close> has the state \<open>L1_y\<close>; \<open>V4\<close> is its square; and
  \<open>vsout\<close> is selected by the flags of the limiter of \<open>V4\<close>. Each stage reads the output of
  the stage before it.
\<close>

theorem STAB2A_signal_path:
  assumes ok: "algebraic_ok env (STAB2AModel_init PSSBase)"
    and vs: "Algeb ''vsout'' v0 e0 \<in> set PSSBase"
  shows "env ''SnSb'' \<noteq> 0 \<and> env ''sig'' = env ''te'' / env ''SnSb'' \<and>
         env ''PK2_y'' = env ''K2'' * env ''sig'' \<and>
         Dif ''WO_x'' (Minus (Times (Sym ''T2'') (Sym ''PK2_y'')) (Sym ''WO_x'')) ''T2''
           \<in> set (concat (map equations (STAB2AModel_init PSSBase))) \<and>
         env ''WO_y'' = env ''T2'' * env ''PK2_y'' - env ''WO_x'' \<and>
         env ''V1'' = env ''WO_y'' ^ 3 \<and>
         Dif ''V2_y'' (Minus (Times (Sym ''K3'') (Sym ''V1'')) (Sym ''V2_y'')) ''T3''
           \<in> set (concat (map equations (STAB2AModel_init PSSBase))) \<and>
         env ''V3'' = env ''V2_y'' + env ''K4'' * env ''V1'' \<and>
         Dif ''L1_y'' (Minus (Times (Sym ''K5'') (Sym ''V3'')) (Sym ''L1_y'')) ''T5''
           \<in> set (concat (map equations (STAB2AModel_init PSSBase))) \<and>
         env ''V4'' = env ''L1_y'' ^ 2 \<and>
         (env ''HLIM_zi'', env ''HLIM_zu'', env ''HLIM_zl'')
           = Limiter_check (env ''V4'') (env ''HLIM_MIN'') (env ''HLIM_MAX'') \<and>
         env ''vsout'' = env ''HLIM_zi'' * env ''V4'' + env ''HLIM_zu'' * env ''HLIM_MAX''
                        + env ''HLIM_zl'' * env ''HLIM_MIN'' \<and>
         feeds (STAB2AModel_init PSSBase) ''te'' ''sig'' \<and>
         feeds (STAB2AModel_init PSSBase) ''sig'' ''PK2_y'' \<and>
         feeds (STAB2AModel_init PSSBase) ''PK2_y'' ''WO_y'' \<and>
         feeds (STAB2AModel_init PSSBase) ''WO_y'' ''V1'' \<and>
         feeds (STAB2AModel_init PSSBase) ''V1'' ''V2_y'' \<and>
         feeds (STAB2AModel_init PSSBase) ''V1'' ''PK4_y'' \<and>
         feeds (STAB2AModel_init PSSBase) ''V2_y'' ''V3'' \<and>
         feeds (STAB2AModel_init PSSBase) ''PK4_y'' ''V3'' \<and>
         feeds (STAB2AModel_init PSSBase) ''V3'' ''L1_y'' \<and>
         feeds (STAB2AModel_init PSSBase) ''L1_y'' ''V4'' \<and>
         feeds (STAB2AModel_init PSSBase) ''V4'' ''HLIM_zi'' \<and>
         feeds (STAB2AModel_init PSSBase) ''HLIM_zi'' ''vsout'' \<and>
         feeds (STAB2AModel_init PSSBase) ''V4'' ''vsout''"
  using STAB2A_own_ok [OF ok] STAB2A_vsout_ok [OF ok vs] STAB2A_differential [of PSSBase]
    STAB2A_feeds [of PSSBase] STAB2A_feeds_vsout [OF vs]
  by simp

theorem STAB2A_signal_path_witness:
  "stab2a_state ''SnSb'' \<noteq> 0 \<and> stab2a_state ''sig'' = stab2a_state ''te'' / stab2a_state ''SnSb'' \<and>
         stab2a_state ''PK2_y'' = stab2a_state ''K2'' * stab2a_state ''sig'' \<and>
         Dif ''WO_x'' (Minus (Times (Sym ''T2'') (Sym ''PK2_y'')) (Sym ''WO_x'')) ''T2''
           \<in> set (concat (map equations (STAB2AModel_init PSSBase_vsout))) \<and>
         stab2a_state ''WO_y'' = stab2a_state ''T2'' * stab2a_state ''PK2_y'' - stab2a_state ''WO_x'' \<and>
         stab2a_state ''V1'' = stab2a_state ''WO_y'' ^ 3 \<and>
         Dif ''V2_y'' (Minus (Times (Sym ''K3'') (Sym ''V1'')) (Sym ''V2_y'')) ''T3''
           \<in> set (concat (map equations (STAB2AModel_init PSSBase_vsout))) \<and>
         stab2a_state ''V3'' = stab2a_state ''V2_y'' + stab2a_state ''K4'' * stab2a_state ''V1'' \<and>
         Dif ''L1_y'' (Minus (Times (Sym ''K5'') (Sym ''V3'')) (Sym ''L1_y'')) ''T5''
           \<in> set (concat (map equations (STAB2AModel_init PSSBase_vsout))) \<and>
         stab2a_state ''V4'' = stab2a_state ''L1_y'' ^ 2 \<and>
         (stab2a_state ''HLIM_zi'', stab2a_state ''HLIM_zu'', stab2a_state ''HLIM_zl'')
           = Limiter_check (stab2a_state ''V4'') (stab2a_state ''HLIM_MIN'') (stab2a_state ''HLIM_MAX'') \<and>
         stab2a_state ''vsout'' = stab2a_state ''HLIM_zi'' * stab2a_state ''V4'' + stab2a_state ''HLIM_zu'' * stab2a_state ''HLIM_MAX''
                        + stab2a_state ''HLIM_zl'' * stab2a_state ''HLIM_MIN'' \<and>
         feeds (STAB2AModel_init PSSBase_vsout) ''te'' ''sig'' \<and>
         feeds (STAB2AModel_init PSSBase_vsout) ''sig'' ''PK2_y'' \<and>
         feeds (STAB2AModel_init PSSBase_vsout) ''PK2_y'' ''WO_y'' \<and>
         feeds (STAB2AModel_init PSSBase_vsout) ''WO_y'' ''V1'' \<and>
         feeds (STAB2AModel_init PSSBase_vsout) ''V1'' ''V2_y'' \<and>
         feeds (STAB2AModel_init PSSBase_vsout) ''V1'' ''PK4_y'' \<and>
         feeds (STAB2AModel_init PSSBase_vsout) ''V2_y'' ''V3'' \<and>
         feeds (STAB2AModel_init PSSBase_vsout) ''PK4_y'' ''V3'' \<and>
         feeds (STAB2AModel_init PSSBase_vsout) ''V3'' ''L1_y'' \<and>
         feeds (STAB2AModel_init PSSBase_vsout) ''L1_y'' ''V4'' \<and>
         feeds (STAB2AModel_init PSSBase_vsout) ''V4'' ''HLIM_zi'' \<and>
         feeds (STAB2AModel_init PSSBase_vsout) ''HLIM_zi'' ''vsout'' \<and>
         feeds (STAB2AModel_init PSSBase_vsout) ''V4'' ''vsout''"
proof -
  have v: "Algeb ''vsout'' None (Minus (Lit 0) (Sym ''vsout'')) \<in> set PSSBase_vsout"
    by (simp add: PSSBase_vsout_def)
  show ?thesis by (rule STAB2A_signal_path [OF stab2a_state_ok v])
qed

text \<open>
  Claim C6. For every input and bounds exactly one of the flags \<open>zi\<close>, \<open>zu\<close>, \<open>zl\<close> of a
  limiter is \<open>1\<close> and the others are \<open>0\<close>, and the selection
  \<open>zi * input + zu * upper + zl * lower\<close> is the input when \<open>zi\<close> is active, the upper bound
  when \<open>zu\<close> is, the lower bound when \<open>zl\<close> is. For the limiter \<open>HLIM\<close> of STAB2A: in every
  valuation that satisfies the algebraic equations, \<open>vsout\<close> is \<open>V4\<close>, \<open>HLIM_MAX\<close> or
  \<open>HLIM_MIN\<close>, with the one flag that is active.
\<close>

theorem Limiter_one_flag:
  "(case Limiter_check inp lower upper of (zi, zu, zl) \<Rightarrow>
      (zi = 1 \<and> zu = 0 \<and> zl = 0 \<or> zi = 0 \<and> zu = 1 \<and> zl = 0 \<or> zi = 0 \<and> zu = 0 \<and> zl = 1) \<and>
      zi * inp + zu * upper + zl * lower
        = (if zi = 1 then inp else if zu = 1 then upper else lower)) \<and>
   (algebraic_ok env (STAB2AModel_init PSSBase) \<longrightarrow> Algeb ''vsout'' v0 e0 \<in> set PSSBase \<longrightarrow>
      (env ''HLIM_zi'' = 1 \<and> env ''HLIM_zu'' = 0 \<and> env ''HLIM_zl'' = 0 \<and>
         env ''vsout'' = env ''V4'') \<or>
      (env ''HLIM_zi'' = 0 \<and> env ''HLIM_zu'' = 1 \<and> env ''HLIM_zl'' = 0 \<and>
         env ''vsout'' = env ''HLIM_MAX'') \<or>
      (env ''HLIM_zi'' = 0 \<and> env ''HLIM_zu'' = 0 \<and> env ''HLIM_zl'' = 1 \<and>
         env ''vsout'' = env ''HLIM_MIN''))"
proof (intro conjI impI)
  show "case Limiter_check inp lower upper of (zi, zu, zl) \<Rightarrow>
      (zi = 1 \<and> zu = 0 \<and> zl = 0 \<or> zi = 0 \<and> zu = 1 \<and> zl = 0 \<or> zi = 0 \<and> zu = 0 \<and> zl = 1) \<and>
      zi * inp + zu * upper + zl * lower
        = (if zi = 1 then inp else if zu = 1 then upper else lower)"
    by (simp add: Limiter_check_def)
next
  assume ok: "algebraic_ok env (STAB2AModel_init PSSBase)"
    and vs: "Algeb ''vsout'' v0 e0 \<in> set PSSBase"
  from STAB2A_own_ok(9) [OF ok] STAB2A_vsout_ok [OF ok vs]
  show "(env ''HLIM_zi'' = 1 \<and> env ''HLIM_zu'' = 0 \<and> env ''HLIM_zl'' = 0 \<and>
         env ''vsout'' = env ''V4'') \<or>
      (env ''HLIM_zi'' = 0 \<and> env ''HLIM_zu'' = 1 \<and> env ''HLIM_zl'' = 0 \<and>
         env ''vsout'' = env ''HLIM_MAX'') \<or>
      (env ''HLIM_zi'' = 0 \<and> env ''HLIM_zu'' = 0 \<and> env ''HLIM_zl'' = 1 \<and>
         env ''vsout'' = env ''HLIM_MIN'')"
    by (auto simp: Limiter_check_def split: if_splits)
qed

theorem Limiter_one_flag_witness:
  "Limiter_check 0.25 (- 0.3) 0.3 = (1, 0, 0) \<and> Limiter_check 0.5 (- 0.3) 0.3 = (0, 1, 0) \<and>
   Limiter_check (- 0.5) (- 0.3) 0.3 = (0, 0, 1) \<and>
   stab2a_state ''HLIM_zi'' = 1 \<and> stab2a_state ''HLIM_zu'' = 0 \<and> stab2a_state ''HLIM_zl'' = 0 \<and>
   stab2a_state ''vsout'' = stab2a_state ''V4''"
proof -
  have v: "Algeb ''vsout'' None (Minus (Lit 0) (Sym ''vsout'')) \<in> set PSSBase_vsout"
    by (simp add: PSSBase_vsout_def)
  have c: "stab2a_state ''HLIM_zi'' = 1" "stab2a_state ''HLIM_zu'' = 0" "stab2a_state ''HLIM_zl'' = 0"
    by (simp_all add: stab2a_state_def env_of_def)
  from Limiter_one_flag [of "0.25" "- 0.3" "0.3" stab2a_state PSSBase_vsout None
      "Minus (Lit 0) (Sym ''vsout'')"] stab2a_state_ok v c
  show ?thesis by (simp add: Limiter_check_def)
qed

section \<open>The output limits of the stabilizer\<close>



end
